theory Spec2Isabelle
  imports Complex_Main
begin

section \<open>Numeric model\<close>

text \<open>
  The module \<^verbatim>\<open>orphics/cosmology.py\<close> computes with numpy \<^verbatim>\<open>float64\<close> scalars and
  one-dimensional arrays. A float is modelled as a \<^typ>\<open>real\<close> (exact arithmetic, no
  rounding) and an array as a \<^typ>\<open>real list\<close>; the elementwise operators of numpy are
  \<^const>\<open>map\<close> and \<open>map2\<close>, a boolean-mask selection \<^verbatim>\<open>a[m]\<close> is a filter over the
  zipped lists and \<^verbatim>\<open>np.dot\<close> is the sum of the elementwise products.
  The external providers (CAMB's background results and matter-power interpolator) are
  parameters of the model.
\<close>

subsection \<open>Array helpers\<close>

text \<open>\<^verbatim>\<open>np.linspace(start, stop, num)\<close> with the endpoint included.\<close>

definition linspace :: "real \<Rightarrow> real \<Rightarrow> nat \<Rightarrow> real list" where
  "linspace start stop num =
     (if num = 0 then []
      else if num = 1 then [start]
      else map (\<lambda>i. start + real i * ((stop - start) / real (num - 1))) [0..<num])"

text \<open>The slices \<^verbatim>\<open>a[k:]\<close>, \<^verbatim>\<open>a[:-k]\<close> and \<^verbatim>\<open>a[1:-1]\<close>.\<close>

definition slice_from :: "nat \<Rightarrow> 'a list \<Rightarrow> 'a list" where
  "slice_from k xs = drop k xs"

definition slice_upto_neg :: "nat \<Rightarrow> 'a list \<Rightarrow> 'a list" where
  "slice_upto_neg k xs = take (length xs - k) xs"

definition slice_inner :: "'a list \<Rightarrow> 'a list" where
  "slice_inner xs = slice_upto_neg 1 (slice_from 1 xs)"

text \<open>\<^verbatim>\<open>(a[2:] - a[:-2]) / 2\<close>: both slices have the same length, so the elementwise
  difference never fails to broadcast.\<close>

definition central_weights :: "real list \<Rightarrow> real list" where
  "central_weights xs =
     map2 (\<lambda>hi lo. (hi - lo) / 2) (slice_from 2 xs) (slice_upto_neg 2 xs)"

text \<open>\<^verbatim>\<open>np.dot(a, b)\<close> on two vectors of the same length.\<close>

definition dot :: "real list \<Rightarrow> real list \<Rightarrow> real" where
  "dot xs ys = sum_list (map2 (*) xs ys)"

subsection \<open>Exceptions\<close>

text \<open>
  A call that raises is a result \<open>Inl e\<close>; the state the interrupted call leaves behind is
  not part of the result.
\<close>

datatype py_error =
  KeyError | ValueError | IndexError | AssertionError | NameError | ZeroDivisionError
  | AttributeError

subsection \<open>Strings\<close>

text \<open>\<^verbatim>\<open>str.upper\<close> and \<^verbatim>\<open>str.lower\<close> on the ASCII letters.\<close>

definition upper_char :: "char \<Rightarrow> char" where
  "upper_char c =
     (case map_of (zip ''abcdefghijklmnopqrstuvwxyz'' ''ABCDEFGHIJKLMNOPQRSTUVWXYZ'') c of
        Some u \<Rightarrow> u | None \<Rightarrow> c)"

definition lower_char :: "char \<Rightarrow> char" where
  "lower_char c =
     (case map_of (zip ''ABCDEFGHIJKLMNOPQRSTUVWXYZ'' ''abcdefghijklmnopqrstuvwxyz'') c of
        Some l \<Rightarrow> l | None \<Rightarrow> c)"

definition upper :: "string \<Rightarrow> string" where
  "upper s = map upper_char s"

subsection \<open>\<^verbatim>\<open>scipy.interpolate.interp1d\<close>\<close>

text \<open>
  The module builds every continuous function with
  \<^verbatim>\<open>interp1d(x, y, bounds_error=False, fill_value=v)\<close>, the library's piecewise-linear
  interpolant: the samples are sorted by abscissa, a query outside \<open>[min x, max x]\<close> gives
  the fill value, and a query inside gives \<open>slope * (x_new - x_lo) + y_lo\<close> on the segment
  \<open>x_lo < x_new \<le> x_hi\<close> found by a left binary search. The library is not part of the
  repository; this is its documented behaviour on samples with distinct abscissae.
\<close>

fun lin_interp :: "(real \<times> real) list \<Rightarrow> real \<Rightarrow> real" where
  "lin_interp [] x = 0"
| "lin_interp [(x0, y0)] x = y0"
| "lin_interp ((x0, y0) # (x1, y1) # ps) x =
     (if x \<le> x1 then (y1 - y0) / (x1 - x0) * (x - x0) + y0
      else lin_interp ((x1, y1) # ps) x)"

definition interp1d :: "(real \<times> real) list \<Rightarrow> real \<Rightarrow> real \<Rightarrow> real" where
  "interp1d samples fill_value x =
     (let ps = sort_key fst samples
      in if ps = [] \<or> x < fst (hd ps) \<or> fst (last ps) < x then fill_value
         else lin_interp ps x)"

section \<open>RedshiftGrid: the distance grid of \<^verbatim>\<open>LimberCosmology.__init__\<close>\<close>

text \<open>
  \<^verbatim>\<open>
  self.chis = np.linspace(0,self.chistar,numz)
  self.zs=self.results.redshift_at_comoving_radial_distance(self.chis)
  self.dchis = (self.chis[2:]-self.chis[:-2])/2
  self.chis = self.chis[1:-1]
  self.zs = self.zs[1:-1]
  self.Hzs = np.array([self.results.hubble_parameter(z) for z in self.zs])
  \<close>
  The background results object is the pair of functions \<open>redshift_at\<close> and \<open>hubble\<close>.
\<close>

record grid =
  chis :: "real list"
  zs :: "real list"
  dchis :: "real list"
  Hzs :: "real list"

definition raw_chis :: "real \<Rightarrow> nat \<Rightarrow> real list" where
  "raw_chis chistar numz = linspace 0 chistar numz"

definition init_grid :: "(real \<Rightarrow> real) \<Rightarrow> (real \<Rightarrow> real) \<Rightarrow> real \<Rightarrow> nat \<Rightarrow> grid" where
  "init_grid redshift_at hubble chistar numz =
     (let chis0 = raw_chis chistar numz;
          zs0 = map redshift_at chis0;
          dchis1 = central_weights chis0;
          chis1 = slice_inner chis0;
          zs1 = slice_inner zs0
      in \<lparr> chis = chis1, zs = zs1, dchis = dchis1, Hzs = map hubble zs1 \<rparr>)"

section \<open>NoiseModel\<close>

text \<open>
  \<^verbatim>\<open>
  def atm_factor(ell,lknee,alpha):
      if lknee>1.e-3:
          atmFactor = (lknee/ell)**(-alpha)
      else:
          atmFactor = 0.
      return atmFactor
  \<close>
  In the first branch \<open>lknee\<close> is positive; for a positive multipole the base of the power
  is positive, where the float power is \<^const>\<open>powr\<close>. A multipole \<open>ell \<le> 0\<close> makes numpy
  produce \<^verbatim>\<open>inf\<close> or \<^verbatim>\<open>nan\<close>, which the model does not represent: every statement
  about \<open>atm_factor\<close> below is for \<open>0 < ell\<close>.
\<close>

definition atm_factor :: "real \<Rightarrow> real \<Rightarrow> real \<Rightarrow> real" where
  "atm_factor ell lknee alpha =
     (if lknee > 1 / 1000 then (lknee / ell) powr (- alpha) else 0)"

text \<open>
  \<^verbatim>\<open>
  def white_noise_with_atm_func(ell,uk_arcmin,lknee,alpha,dimensionless,TCMB=2.7255e6):
      atmFactor = atm_factor(ell,lknee,alpha)
      noiseWhite = ell*0.+(uk_arcmin*np.pi / (180. * 60))**2.
      dfact = (1./TCMB**2.) if dimensionless else 1.
      return (atmFactor+1.)*noiseWhite*dfact
  \<close>
\<close>

definition white_noise_with_atm_func ::
  "real \<Rightarrow> real \<Rightarrow> real \<Rightarrow> real \<Rightarrow> bool \<Rightarrow> real \<Rightarrow> real" where
  "white_noise_with_atm_func ell uk_arcmin lknee alpha dimensionless TCMB =
     (let atmFactor = atm_factor ell lknee alpha;
          noiseWhite = ell * 0 + (uk_arcmin * pi / (180 * 60))\<^sup>2;
          dfact = (if dimensionless then 1 / TCMB\<^sup>2 else 1)
      in (atmFactor + 1) * noiseWhite * dfact)"

text \<open>\<^verbatim>\<open>np.deg2rad\<close>.\<close>

definition deg2rad :: "real \<Rightarrow> real" where
  "deg2rad d = d * pi / 180"

text \<open>
  \<^verbatim>\<open>
  def noise_func(ell,fwhm,rms_noise,lknee=0.,alpha=0.,dimensionless=False,TCMB=2.7255e6):
      atmFactor = atm_factor(ell,lknee,alpha)
      rms = rms_noise * (1./60.)*(np.pi/180.)
      tht_fwhm = np.deg2rad(fwhm / 60.)
      nfact = white_noise_with_atm_func(ell,rms_noise,lknee,alpha,dimensionless,TCMB)
      ans = nfact * np.exp((tht_fwhm**2.)*(ell**2.) / (8.*np.log(2.)))
      return ans
  \<close>
  The locals \<open>atmFactor\<close> and \<open>rms\<close> are computed and never used.
\<close>

definition noise_func ::
  "real \<Rightarrow> real \<Rightarrow> real \<Rightarrow> real \<Rightarrow> real \<Rightarrow> bool \<Rightarrow> real \<Rightarrow> real" where
  "noise_func ell fwhm rms_noise lknee alpha dimensionless TCMB =
     (let tht_fwhm = deg2rad (fwhm / 60);
          nfact = white_noise_with_atm_func ell rms_noise lknee alpha dimensionless TCMB
      in nfact * exp ((tht_fwhm\<^sup>2 * ell\<^sup>2) / (8 * ln 2)))"

section \<open>SpectrumInterpolator: the class \<^verbatim>\<open>TheorySpectra\<close>\<close>

text \<open>
  The three dictionaries \<^verbatim>\<open>_uCl\<close>, \<^verbatim>\<open>_lCl\<close> and \<^verbatim>\<open>_gCl\<close> map a key to a callable of the
  multipole. A callable is a function \<^typ>\<open>real \<Rightarrow> real\<close>, applied elementwise when the
  source passes an array.
\<close>

record theory_spectra =
  uCl_dict :: "string \<rightharpoonup> (real \<Rightarrow> real)"
  lCl_dict :: "string \<rightharpoonup> (real \<Rightarrow> real)"
  gCl_dict :: "string \<rightharpoonup> (real \<Rightarrow> real)"

text \<open>\<^verbatim>\<open>TheorySpectra.__init__\<close>: three empty dictionaries.\<close>

definition TheorySpectra :: theory_spectra where
  "TheorySpectra = \<lparr> uCl_dict = Map.empty, lCl_dict = Map.empty, gCl_dict = Map.empty \<rparr>"

text \<open>
  \<^verbatim>\<open>
  def validateMapType(mapXYType):
      assert not(re.search('[^TEB]', mapXYType)) and (len(mapXYType)==2), \
        bcolors.FAIL+"\""+mapXYType+"\" is an invalid map type. ..."+bcolors.ENDC
  \<close>
  The module defines no \<^verbatim>\<open>bcolors\<close>, so a failing assertion raises \<^verbatim>\<open>NameError\<close> while
  its message is built.
\<close>

definition validateMapType :: "string \<Rightarrow> py_error + unit" where
  "validateMapType mapXYType =
     (if (\<forall>c \<in> set mapXYType. c \<in> set ''TEB'') \<and> length mapXYType = 2 then Inr ()
      else Inl NameError)"

text \<open>
  The samples kept by the masks \<^verbatim>\<open>ells[ells<lpad]\<close> and \<^verbatim>\<open>Cls[ells<lpad]\<close>, as pairs.
\<close>

definition below_lpad :: "real list \<Rightarrow> real list \<Rightarrow> real \<Rightarrow> (real \<times> real) list" where
  "below_lpad ells Cls lpad = filter (\<lambda>(l, c). l < lpad) (zip ells Cls)"

text \<open>
  The callable of the branch \<^verbatim>\<open>not(fill_zero)\<close>:
  \<^verbatim>\<open>
  lambda x: np.piecewise(x, [x<=lpad,x>lpad],
      [lambda y: interp1d(ells[ells<lpad],Cls[ells<lpad],bounds_error=False,fill_value=0.)(y),
       lambda y: fillval*(lpad/y)**4.])
  \<close>
  \<^verbatim>\<open>np.piecewise\<close> leaves \<open>0\<close> where no condition holds.
\<close>

definition tail_extrapolated :: "(real \<times> real) list \<Rightarrow> real \<Rightarrow> real \<Rightarrow> real \<Rightarrow> real" where
  "tail_extrapolated kept lpad fillval x =
     (if x \<le> lpad then interp1d kept 0 x
      else if x > lpad then fillval * (lpad / x) ^ 4
      else 0)"

text \<open>
  The body shared, word for word, by \<^verbatim>\<open>loadGenericCls\<close> and \<^verbatim>\<open>loadCls\<close>:
  \<^verbatim>\<open>
  if not(fill_zero):
      fillval = Cls[ells<lpad][-1]
      f = lambda x: np.piecewise(...)
  else:
      fillval = 0.
      f = interp1d(ells[ells<lpad],Cls[ells<lpad],bounds_error=False,fill_value=fillval)
  \<close>
  A mask of another length than the array it indexes raises \<^verbatim>\<open>IndexError\<close>, as does
  \<^verbatim>\<open>[-1]\<close> on an empty selection; \<^verbatim>\<open>interp1d\<close> rejects an empty sample set with
  \<^verbatim>\<open>ValueError\<close>.
\<close>

definition spectrum_function ::
  "real list \<Rightarrow> real list \<Rightarrow> real \<Rightarrow> bool \<Rightarrow> py_error + (real \<Rightarrow> real)" where
  "spectrum_function ells Cls lpad fill_zero =
     (if length ells \<noteq> length Cls then Inl IndexError
      else
        let kept = below_lpad ells Cls lpad in
        if \<not> fill_zero then
          (if kept = [] then Inl IndexError
           else let fillval = snd (last kept) in Inr (tail_extrapolated kept lpad fillval))
        else
          (if kept = [] then Inl ValueError
           else let fillval = 0 in Inr (interp1d kept fillval)))"

text \<open>
  \<^verbatim>\<open>
  def loadGenericCls(self,ells,Cls,keyName,lpad=9000,fill_zero=True):
      ...
      self._gCl[keyName] = f
  \<close>
\<close>

definition loadGenericCls ::
  "theory_spectra \<Rightarrow> real list \<Rightarrow> real list \<Rightarrow> string \<Rightarrow> real \<Rightarrow> bool
     \<Rightarrow> py_error + theory_spectra" where
  "loadGenericCls self ells Cls keyName lpad fill_zero =
     (case spectrum_function ells Cls lpad fill_zero of
        Inl e \<Rightarrow> Inl e
      | Inr f \<Rightarrow> Inr (self\<lparr> gCl_dict := (gCl_dict self)(keyName \<mapsto> f) \<rparr>))"


text \<open>
  \<^verbatim>\<open>
  def _Cl(self,XYType,ell,lensed=False):
      mapXYType = XYType.upper()
      validateMapType(mapXYType)
      if mapXYType=="ET": mapXYType="TE"
      ell = np.array(ell)
      try:
          if lensed:
              retlist = np.array(self._lCl[mapXYType](ell))
              return retlist
          else:
              retlist = np.array(self._uCl[mapXYType](ell))
              return retlist
      except:
          zspecs = ['EB','TB']
          if (XYType in zspecs) or (XYType[::-1] in zspecs):
              return ell*0.
          else:
              raise
  \<close>
  The stored callables do not raise, so the handler runs exactly when the key is missing.
  Which callable answers the query does not depend on the multipole: \<open>Cl_lookup\<close> is the
  callable found, and \<open>uCl\<close>, \<open>lCl\<close> below apply it.
\<close>

definition Cl_lookup :: "theory_spectra \<Rightarrow> string \<Rightarrow> bool \<Rightarrow> py_error + (real \<Rightarrow> real)" where
  "Cl_lookup self XYType lensed =
     (let mapXYType = upper XYType in
      case validateMapType mapXYType of
        Inl e \<Rightarrow> Inl e
      | Inr _ \<Rightarrow>
         let mapXYType = (if mapXYType = ''ET'' then ''TE'' else mapXYType) in
         (case (if lensed then lCl_dict self else uCl_dict self) mapXYType of
            Some f \<Rightarrow> Inr f
          | None \<Rightarrow>
             let zspecs = [''EB'', ''TB''] in
             if XYType \<in> set zspecs \<or> rev XYType \<in> set zspecs then Inr (\<lambda>ell. ell * 0)
             else Inl KeyError))"

definition uCl_lookup :: "theory_spectra \<Rightarrow> string \<Rightarrow> py_error + (real \<Rightarrow> real)" where
  "uCl_lookup self XYType = Cl_lookup self XYType False"

definition lCl_lookup :: "theory_spectra \<Rightarrow> string \<Rightarrow> py_error + (real \<Rightarrow> real)" where
  "lCl_lookup self XYType = Cl_lookup self XYType True"

text \<open>
  \<^verbatim>\<open>
  def gCl(self,keyName,ell):
      if len(keyName)==3:
          # assume uTT, lTT, etc.
          ultype = keyName[0].lower()
          if ultype=="u":
              return self.uCl(keyName[1:],ell)
          elif ultype=="l":
              return self.lCl(keyName[1:],ell)
          else:
              raise ValueError
      try:
          return self._gCl[keyName](ell)
      except:
          return self._gCl[keyName[::-1]](ell)
  \<close>
\<close>

definition gCl_lookup :: "theory_spectra \<Rightarrow> string \<Rightarrow> py_error + (real \<Rightarrow> real)" where
  "gCl_lookup self keyName =
     (if length keyName = 3 then
        (let ultype = lower_char (hd keyName) in
         if ultype = CHR ''u'' then uCl_lookup self (tl keyName)
         else if ultype = CHR ''l'' then lCl_lookup self (tl keyName)
         else Inl ValueError)
      else
        (case gCl_dict self keyName of
           Some f \<Rightarrow> Inr f
         | None \<Rightarrow>
            (case gCl_dict self (rev keyName) of
               Some f \<Rightarrow> Inr f
             | None \<Rightarrow> Inl KeyError)))"

text \<open>A query at one multipole, and at an array of multipoles.\<close>

definition at_ell :: "py_error + (real \<Rightarrow> real) \<Rightarrow> real \<Rightarrow> py_error + real" where
  "at_ell r ell = (case r of Inl e \<Rightarrow> Inl e | Inr f \<Rightarrow> Inr (f ell))"

definition at_ells :: "py_error + (real \<Rightarrow> real) \<Rightarrow> real list \<Rightarrow> py_error + real list" where
  "at_ells r ells = (case r of Inl e \<Rightarrow> Inl e | Inr f \<Rightarrow> Inr (map f ells))"

definition uCl :: "theory_spectra \<Rightarrow> string \<Rightarrow> real \<Rightarrow> py_error + real" where
  "uCl self XYType ell = at_ell (uCl_lookup self XYType) ell"

definition lCl :: "theory_spectra \<Rightarrow> string \<Rightarrow> real \<Rightarrow> py_error + real" where
  "lCl self XYType ell = at_ell (lCl_lookup self XYType) ell"

definition gCl :: "theory_spectra \<Rightarrow> string \<Rightarrow> real \<Rightarrow> py_error + real" where
  "gCl self keyName ell = at_ell (gCl_lookup self keyName) ell"

definition gCl_array :: "theory_spectra \<Rightarrow> string \<Rightarrow> real list \<Rightarrow> py_error + real list" where
  "gCl_array self keyName ells = at_ells (gCl_lookup self keyName) ells"

text \<open>The parity-odd codes and their reversals.\<close>

definition zero_codes :: "string set" where
  "zero_codes = {''EB'', ''TB'', ''BE'', ''BT''}"


section \<open>Floats with infinities and not-a-number\<close>

text \<open>
  The forecast engine divides by quantities that vanish on finite inputs (an empty bin,
  a bin variance of zero) and registers noise curves that are infinite outside their
  sampled range (\<^verbatim>\<open>fill_value=np.inf\<close>). numpy does not raise there: the quotient is
  \<^verbatim>\<open>inf\<close> or \<^verbatim>\<open>nan\<close> and the computation goes on. The scalars of the forecast engine are
  therefore values of \<open>npfloat\<close>: a real number, one of the two infinities, or
  not-a-number, with the IEEE rules for the special values. Rounding is still ignored,
  and the two zeros are not told apart: a division by zero takes the sign of the dividend.
\<close>

datatype npfloat = Fin real | PInf | NInf | NaN

text \<open>The infinity of a sign, and not-a-number for the sign \<open>0\<close>.\<close>

definition inf_of_sign :: "real \<Rightarrow> npfloat" where
  "inf_of_sign s = (if 0 < s then PInf else if s < 0 then NInf else NaN)"

fun fsign :: "npfloat \<Rightarrow> real" where
  "fsign (Fin a) = sgn a"
| "fsign PInf = 1"
| "fsign NInf = - 1"
| "fsign NaN = 0"

fun fadd :: "npfloat \<Rightarrow> npfloat \<Rightarrow> npfloat" where
  "fadd NaN y = NaN"
| "fadd x NaN = NaN"
| "fadd (Fin a) (Fin b) = Fin (a + b)"
| "fadd PInf NInf = NaN"
| "fadd NInf PInf = NaN"
| "fadd PInf y = PInf"
| "fadd x PInf = PInf"
| "fadd NInf y = NInf"
| "fadd x NInf = NInf"

fun fneg :: "npfloat \<Rightarrow> npfloat" where
  "fneg (Fin a) = Fin (- a)"
| "fneg PInf = NInf"
| "fneg NInf = PInf"
| "fneg NaN = NaN"

definition fsub :: "npfloat \<Rightarrow> npfloat \<Rightarrow> npfloat" where
  "fsub x y = fadd x (fneg y)"

fun fmul :: "npfloat \<Rightarrow> npfloat \<Rightarrow> npfloat" where
  "fmul NaN y = NaN"
| "fmul x NaN = NaN"
| "fmul (Fin a) (Fin b) = Fin (a * b)"
| "fmul x y = inf_of_sign (fsign x * fsign y)"

fun fdiv :: "npfloat \<Rightarrow> npfloat \<Rightarrow> npfloat" where
  "fdiv NaN y = NaN"
| "fdiv x NaN = NaN"
| "fdiv (Fin a) (Fin b) = (if b = 0 then inf_of_sign a else Fin (a / b))"
| "fdiv (Fin a) y = Fin 0"
| "fdiv x (Fin b) = inf_of_sign (fsign x * (if b < 0 then - 1 else 1))"
| "fdiv x y = NaN"

fun fsqrt :: "npfloat \<Rightarrow> npfloat" where
  "fsqrt (Fin a) = (if a < 0 then NaN else Fin (sqrt a))"
| "fsqrt PInf = PInf"
| "fsqrt NInf = NaN"
| "fsqrt NaN = NaN"

text \<open>\<^verbatim>\<open>x**2.\<close> is the product of \<open>x\<close> with itself.\<close>

definition fsquare :: "npfloat \<Rightarrow> npfloat" where
  "fsquare x = fmul x x"

text \<open>\<^verbatim>\<open>np.sum\<close> of an array, from the left.\<close>

definition fsum :: "npfloat list \<Rightarrow> npfloat" where
  "fsum xs = foldl fadd (Fin 0) xs"



text \<open>\<^verbatim>\<open>np.arange(start, stop, 1)\<close>.\<close>

definition arange :: "real \<Rightarrow> real \<Rightarrow> real list" where
  "arange start stop = map (\<lambda>i. start + real i) [0..<nat \<lceil>stop - start\<rceil>]"

text \<open>A list of results is the list of their values, or the first error.\<close>

fun collect :: "('e + 'a) list \<Rightarrow> 'e + 'a list" where
  "collect [] = Inr []"
| "collect (r # rs) =
     (case r of
        Inl e \<Rightarrow> Inl e
      | Inr v \<Rightarrow> (case collect rs of Inl e \<Rightarrow> Inl e | Inr vs \<Rightarrow> Inr (v # vs)))"

section \<open>ForecastEngine: the class \<^verbatim>\<open>LensForecast\<close>\<close>

text \<open>
  The engine holds a \<open>TheorySpectra\<close> store (\<^verbatim>\<open>self.theory\<close>, here \<open>theory_obj\<close>), the dictionary \<^verbatim>\<open>Nls\<close> of noise curves and
  six presence flags. A noise curve may be infinite, so its values are \<open>npfloat\<close>s.
\<close>

record lens_forecast =
  haveKK :: bool
  haveKG :: bool
  haveGG :: bool
  haveSS :: bool
  haveSG :: bool
  haveKS :: bool
  theory_obj :: theory_spectra
  Nls :: "string \<rightharpoonup> (real \<Rightarrow> npfloat)"

text \<open>\<^verbatim>\<open>LensForecast.__init__(theory=None)\<close>.\<close>

definition LensForecast :: "theory_spectra option \<Rightarrow> lens_forecast" where
  "LensForecast th =
     \<lparr> haveKK = False, haveKG = False, haveGG = False, haveSS = False, haveSG = False,
       haveKS = False,
       theory_obj = (case th of None \<Rightarrow> TheorySpectra | Some t \<Rightarrow> t),
       Nls = Map.empty \<rparr>"

text \<open>
  \<^verbatim>\<open>interp1d(ellsNls,Nls,bounds_error=False,fill_value=np.inf)\<close>: the interpolant of the
  noise samples, infinite outside their range.
\<close>

definition interp1d_inf :: "(real \<times> real) list \<Rightarrow> real \<Rightarrow> npfloat" where
  "interp1d_inf samples x =
     (let ps = sort_key fst samples
      in if ps = [] \<or> x < fst (hd ps) \<or> fst (last ps) < x then PInf
         else Fin (lin_interp ps x))"

text \<open>
  \<^verbatim>\<open>
  def loadGenericCls(self,specType,ellsCls,Cls,ellsNls=None,Nls=None):
      if Nls is not None: self.Nls[specType] = interp1d(ellsNls,Nls,bounds_error=False,fill_value=np.inf)
      self.theory.loadGenericCls(ellsCls,Cls,specType)
  \<close>
  \<^verbatim>\<open>interp1d\<close> rejects sample arrays of different lengths and an empty sample set.
\<close>

definition forecast_loadGenericCls ::
  "lens_forecast \<Rightarrow> string \<Rightarrow> real list \<Rightarrow> real list \<Rightarrow> (real list \<times> real list) option
     \<Rightarrow> py_error + lens_forecast" where
  "forecast_loadGenericCls self specType ellsCls Cls noise =
     (case (case noise of
              None \<Rightarrow> Inr self
            | Some (ellsNls, Nl) \<Rightarrow>
                if length ellsNls \<noteq> length Nl \<or> ellsNls = [] then Inl ValueError
                else Inr (self\<lparr> Nls := (Nls self)(specType \<mapsto> interp1d_inf (zip ellsNls Nl)) \<rparr>)) of
        Inl e \<Rightarrow> Inl e
      | Inr self1 \<Rightarrow>
          (case loadGenericCls (theory_obj self1) ellsCls Cls specType 9000 True of
             Inl e \<Rightarrow> Inl e
           | Inr t \<Rightarrow> Inr (self1\<lparr> theory_obj := t \<rparr>)))"

text \<open>
  \<^verbatim>\<open>
  def _bin_cls(self,spec,ell_left,ell_right,noise=True):
      a,b = spec
      ells = np.arange(ell_left,ell_right+1,1)
      cls = self.theory.gCl(spec,ells)
      Noise = 0.
      if noise:
          if a==b:
              Noise = self.Nls[spec](ells)
          else:
              Noise = 0.
      tot = cls+Noise
      return np.sum(ells*tot)/np.sum(ells)
  \<close>
  Unpacking \<open>spec\<close> into two letters raises \<^verbatim>\<open>ValueError\<close> unless it has two characters.
  \<open>bin_noise\<close> is the array \<open>Noise\<close> (the scalar \<open>0.\<close> broadcast), \<open>weighted_average\<close> the
  last line.
\<close>

definition bin_noise ::
  "lens_forecast \<Rightarrow> string \<Rightarrow> real list \<Rightarrow> bool \<Rightarrow> py_error + npfloat list" where
  "bin_noise self spec ells noise =
     (if noise then
        (if spec ! 0 = spec ! 1 then
           (case Nls self spec of
              None \<Rightarrow> Inl KeyError
            | Some n \<Rightarrow> Inr (map n ells))
         else Inr (map (\<lambda>ell. Fin 0) ells))
      else Inr (map (\<lambda>ell. Fin 0) ells))"

definition weighted_average :: "real list \<Rightarrow> npfloat list \<Rightarrow> npfloat" where
  "weighted_average ells tot =
     fdiv (fsum (map2 (\<lambda>ell t. fmul (Fin ell) t) ells tot)) (Fin (sum_list ells))"

definition bin_cls ::
  "lens_forecast \<Rightarrow> string \<Rightarrow> real \<Rightarrow> real \<Rightarrow> bool \<Rightarrow> py_error + npfloat" where
  "bin_cls self spec ell_left ell_right noise =
     (if length spec \<noteq> 2 then Inl ValueError
      else
        let ells = arange ell_left (ell_right + 1) in
        case gCl_array (theory_obj self) spec ells of
          Inl e \<Rightarrow> Inl e
        | Inr cls \<Rightarrow>
            (case bin_noise self spec ells noise of
               Inl e \<Rightarrow> Inl e
             | Inr Noise \<Rightarrow>
                 let tot = map2 (\<lambda>c n. fadd (Fin c) n) cls Noise
                 in Inr (weighted_average ells tot)))"





text \<open>
  \<^verbatim>\<open>
  def snRatio(self,ellBinEdges,fsky):
      ellMids  =  (ellBinEdges[1:] + ellBinEdges[:-1]) / 2
      ellWidths = np.diff(ellBinEdges)
      sumchisq = 0.
      signum = 0.
      sigden = 0.
      for ellMid,ellWidth in zip(ellMids,ellWidths):
          Clkk = self.theory.gCl('kk',ellMid)
          Nlkk = self.Nls['kk'](ellMid)
          Nlgg = self.Nls['gg'](ellMid)
          Nlss = self.Nls['ss'](ellMid)
          Clkg = self.theory.gCl('kg',ellMid)
          Clgg = self.theory.gCl('gg',ellMid)
          Clks = self.theory.gCl('ks',ellMid)
          Clss = self.theory.gCl('ss',ellMid)
          Clsg = self.theory.gCl('sg',ellMid)
          r0 = Clkg / Clsg
          pref = 1./(fsky*(2.*ellMid+1.)*ellWidth) # added ellWidth
          sigmaZsq = ((Clkk+Nlkk)*(Clgg+Nlgg))+(Clkg**2.)+((r0**2.)*((Clss+Nlss)*(Clgg+Nlgg)+Clsg**2.))-(2*r0*(Clks*(Clgg+Nlgg)+Clkg*Clsg))
          sigmaZsq = sigmaZsq * pref
          numer = (Clsg**2.)
          denom = sigmaZsq
          signum += (Clkg*Clsg/sigmaZsq)
          sigden += ((Clsg**2.)/sigmaZsq)
          chisq = numer/denom
          sumchisq += chisq
      maxlike = signum/sigden
      sigmaR = 1./np.sqrt(sumchisq)
      percentR = sigmaR*100./maxlike
      snR = maxlike/sigmaR
      return percentR,snR,maxlike
  \<close>
  The nine values of a bin are read in the order of the source, so the first missing key
  decides the error. \<open>snRatio_terms\<close> computes the three increments of a bin:
  \<open>(Clkg*Clsg/sigmaZsq, Clsg**2/sigmaZsq, chisq)\<close>.
\<close>

record bin_values =
  Clkk :: npfloat
  Nlkk :: npfloat
  Nlgg :: npfloat
  Nlss :: npfloat
  Clkg :: npfloat
  Clgg :: npfloat
  Clks :: npfloat
  Clss :: npfloat
  Clsg :: npfloat

definition noise_at :: "lens_forecast \<Rightarrow> string \<Rightarrow> real \<Rightarrow> py_error + npfloat" where
  "noise_at self spec ell = (case Nls self spec of None \<Rightarrow> Inl KeyError | Some n \<Rightarrow> Inr (n ell))"

definition signal_at :: "lens_forecast \<Rightarrow> string \<Rightarrow> real \<Rightarrow> py_error + npfloat" where
  "signal_at self spec ell =
     (case gCl (theory_obj self) spec ell of Inl e \<Rightarrow> Inl e | Inr c \<Rightarrow> Inr (Fin c))"

definition read_bin :: "lens_forecast \<Rightarrow> real \<Rightarrow> py_error + bin_values" where
  "read_bin self ellMid =
     (case signal_at self ''kk'' ellMid of Inl e \<Rightarrow> Inl e | Inr ckk \<Rightarrow>
      case noise_at self ''kk'' ellMid of Inl e \<Rightarrow> Inl e | Inr nkk \<Rightarrow>
      case noise_at self ''gg'' ellMid of Inl e \<Rightarrow> Inl e | Inr ngg \<Rightarrow>
      case noise_at self ''ss'' ellMid of Inl e \<Rightarrow> Inl e | Inr nss \<Rightarrow>
      case signal_at self ''kg'' ellMid of Inl e \<Rightarrow> Inl e | Inr ckg \<Rightarrow>
      case signal_at self ''gg'' ellMid of Inl e \<Rightarrow> Inl e | Inr cgg \<Rightarrow>
      case signal_at self ''ks'' ellMid of Inl e \<Rightarrow> Inl e | Inr cks \<Rightarrow>
      case signal_at self ''ss'' ellMid of Inl e \<Rightarrow> Inl e | Inr css \<Rightarrow>
      case signal_at self ''sg'' ellMid of Inl e \<Rightarrow> Inl e | Inr csg \<Rightarrow>
        Inr \<lparr> Clkk = ckk, Nlkk = nkk, Nlgg = ngg, Nlss = nss, Clkg = ckg, Clgg = cgg,
              Clks = cks, Clss = css, Clsg = csg \<rparr>)"

definition sigmaZsq :: "bin_values \<Rightarrow> real \<Rightarrow> real \<Rightarrow> real \<Rightarrow> npfloat" where
  "sigmaZsq v fsky ellMid ellWidth =
     (let r0 = fdiv (Clkg v) (Clsg v);
          pref = fdiv (Fin 1) (Fin (fsky * (2 * ellMid + 1) * ellWidth));
          s = fsub
                (fadd
                   (fadd (fmul (fadd (Clkk v) (Nlkk v)) (fadd (Clgg v) (Nlgg v)))
                         (fsquare (Clkg v)))
                   (fmul (fsquare r0)
                         (fadd (fmul (fadd (Clss v) (Nlss v)) (fadd (Clgg v) (Nlgg v)))
                               (fsquare (Clsg v)))))
                (fmul (fmul (Fin 2) r0)
                      (fadd (fmul (Clks v) (fadd (Clgg v) (Nlgg v))) (fmul (Clkg v) (Clsg v))))
      in fmul s pref)"

definition snRatio_terms :: "bin_values \<Rightarrow> real \<Rightarrow> real \<Rightarrow> real \<Rightarrow> npfloat \<times> npfloat \<times> npfloat" where
  "snRatio_terms v fsky ellMid ellWidth =
     (let sz = sigmaZsq v fsky ellMid ellWidth;
          numer = fsquare (Clsg v);
          denom = sz
      in (fdiv (fmul (Clkg v) (Clsg v)) sz, fdiv (fsquare (Clsg v)) sz, fdiv numer denom))"

text \<open>The arrays \<open>ellMids\<close> and \<open>ellWidths\<close>, zipped.\<close>

definition mids_widths :: "real list \<Rightarrow> (real \<times> real) list" where
  "mids_widths ellBinEdges =
     zip (map2 (\<lambda>hi lo. (hi + lo) / 2) (slice_from 1 ellBinEdges) (slice_upto_neg 1 ellBinEdges))
         (map2 (\<lambda>hi lo. hi - lo) (slice_from 1 ellBinEdges) (slice_upto_neg 1 ellBinEdges))"

text \<open>
  The loop, with the three accumulators \<open>(sumchisq, signum, sigden)\<close>.
\<close>

fun snRatio_loop ::
  "lens_forecast \<Rightarrow> real \<Rightarrow> (real \<times> real) list \<Rightarrow> npfloat \<times> npfloat \<times> npfloat
     \<Rightarrow> py_error + (npfloat \<times> npfloat \<times> npfloat)" where
  "snRatio_loop self fsky [] acc = Inr acc"
| "snRatio_loop self fsky ((ellMid, ellWidth) # rest) (sumchisq, signum, sigden) =
     (case read_bin self ellMid of
        Inl e \<Rightarrow> Inl e
      | Inr v \<Rightarrow>
          (case snRatio_terms v fsky ellMid ellWidth of
             (tnum, tden, chisq) \<Rightarrow>
               snRatio_loop self fsky rest
                 (fadd sumchisq chisq, fadd signum tnum, fadd sigden tden)))"

text \<open>
  With no bin the accumulators are still the Python floats \<open>0.\<close>, whose quotient raises
  \<^verbatim>\<open>ZeroDivisionError\<close>; after a first bin they are numpy scalars.
\<close>

definition snRatio ::
  "lens_forecast \<Rightarrow> real list \<Rightarrow> real \<Rightarrow> py_error + (npfloat \<times> npfloat \<times> npfloat)" where
  "snRatio self ellBinEdges fsky =
     (case snRatio_loop self fsky (mids_widths ellBinEdges) (Fin 0, Fin 0, Fin 0) of
        Inl e \<Rightarrow> Inl e
      | Inr (sumchisq, signum, sigden) \<Rightarrow>
          if mids_widths ellBinEdges = [] then Inl ZeroDivisionError
          else
            let maxlike = fdiv signum sigden;
                sigmaR = fdiv (Fin 1) (fsqrt sumchisq);
                percentR = fdiv (fmul sigmaR (Fin 100)) maxlike;
                snR = fdiv maxlike sigmaR
            in Inr (percentR, snR, maxlike))"

subsection \<open>The estimator as the spec words it\<close>

text \<open>
  The joint estimator of the spec, on the list of the bins' increments
  \<open>(Clkg*Clsg/\<sigma>\<^sub>Z\<^sup>2, Clsg\<^sup>2/\<sigma>\<^sub>Z\<^sup>2, chisq)\<close>: the three sums, the maximum-likelihood amplitude
  as the ratio of the first two, the uncertainty \<open>sigmaR\<close> as one over the root of the summed
  chi-square terms, and the triple the function returns, the percentage
  \<open>100 * sigmaR / amplitude\<close>, the signal-to-noise \<open>amplitude / sigmaR\<close> and the amplitude.
\<close>

definition joint_estimate ::
  "(npfloat \<times> npfloat \<times> npfloat) list \<Rightarrow> npfloat \<times> npfloat \<times> npfloat" where
  "joint_estimate terms =
     (let signum = fsum (map fst terms);
          sigden = fsum (map (fst \<circ> snd) terms);
          sumchisq = fsum (map (snd \<circ> snd) terms);
          maxlike = fdiv signum sigden;
          sigmaR = fdiv (Fin 1) (fsqrt sumchisq)
      in (fdiv (fmul sigmaR (Fin 100)) maxlike, fdiv maxlike sigmaR, maxlike))"

definition estimator_terms ::
  "real \<Rightarrow> bin_values list \<Rightarrow> (real \<times> real) list \<Rightarrow> (npfloat \<times> npfloat \<times> npfloat) list" where
  "estimator_terms fsky vs mw =
     map2 (\<lambda>v (ellMid, ellWidth).
             (fdiv (fmul (Clkg v) (Clsg v)) (sigmaZsq v fsky ellMid ellWidth),
              fdiv (fsquare (Clsg v)) (sigmaZsq v fsky ellMid ellWidth),
              fdiv (fsquare (Clsg v)) (sigmaZsq v fsky ellMid ellWidth))) vs mw"

text \<open>
  Finite values of a bin, and the bracket of \<open>sigmaZsq\<close> on them (before the prefactor),
  as a real number.
\<close>

definition flat_values ::
  "real \<Rightarrow> real \<Rightarrow> real \<Rightarrow> real \<Rightarrow> real \<Rightarrow> real \<Rightarrow> real \<Rightarrow> real \<Rightarrow> real \<Rightarrow> bin_values" where
  "flat_values kk nkk ngg nss kg gg ks ss sg =
     \<lparr> Clkk = Fin kk, Nlkk = Fin nkk, Nlgg = Fin ngg, Nlss = Fin nss, Clkg = Fin kg,
       Clgg = Fin gg, Clks = Fin ks, Clss = Fin ss, Clsg = Fin sg \<rparr>"

definition bracket ::
  "real \<Rightarrow> real \<Rightarrow> real \<Rightarrow> real \<Rightarrow> real \<Rightarrow> real \<Rightarrow> real \<Rightarrow> real \<Rightarrow> real \<Rightarrow> real" where
  "bracket kk nkk ngg nss kg gg ks ss sg =
     (kk + nkk) * (gg + ngg) + kg\<^sup>2 + (kg / sg)\<^sup>2 * ((ss + nss) * (gg + ngg) + sg\<^sup>2)
       - 2 * (kg / sg) * (ks * (gg + ngg) + kg * sg)"

text \<open>The inverse of the prefactor of a bin \<open>(ellMid, ellWidth)\<close>.\<close>

definition bin_weight :: "real \<Rightarrow> real \<times> real \<Rightarrow> real" where
  "bin_weight fsky p = fsky * (2 * fst p + 1) * snd p"

subsection \<open>Two engines with flat spectra\<close>

text \<open>
  The engine \<open>flat_noise_free\<close> is what six calls of \<open>LensForecast.loadGenericCls\<close> build
  from a fresh engine: each of \<open>kk, gg, ss, kg, ks, sg\<close> is loaded with the samples
  \<open>C\<^sub>1 = C\<^sub>2 = C\<^sub>3 = 1\<close>, and \<open>kk, gg, ss\<close> with the noise samples \<open>N\<^sub>1 = N\<^sub>2 = N\<^sub>3 = 0\<close>.
  The engine \<open>flat_noisy\<close> has the noise \<open>N\<^sub>1 = N\<^sub>2 = N\<^sub>3 = 1\<close> on \<open>kk\<close> instead.
\<close>

definition flat_curve :: "real \<Rightarrow> real" where
  "flat_curve = interp1d [(1, 1), (2, 1), (3, 1)] 0"

definition zero_noise :: "real \<Rightarrow> npfloat" where
  "zero_noise = interp1d_inf [(1, 0), (2, 0), (3, 0)]"

definition unit_noise :: "real \<Rightarrow> npfloat" where
  "unit_noise = interp1d_inf [(1, 1), (2, 1), (3, 1)]"

definition flat_noise_free :: lens_forecast where
  "flat_noise_free =
     (LensForecast None)\<lparr>
        theory_obj := TheorySpectra\<lparr> gCl_dict :=
          [''kk'' \<mapsto> flat_curve, ''gg'' \<mapsto> flat_curve, ''ss'' \<mapsto> flat_curve,
           ''kg'' \<mapsto> flat_curve, ''ks'' \<mapsto> flat_curve, ''sg'' \<mapsto> flat_curve] \<rparr>,
        Nls := [''kk'' \<mapsto> zero_noise, ''gg'' \<mapsto> zero_noise, ''ss'' \<mapsto> zero_noise] \<rparr>"

definition flat_noisy :: lens_forecast where
  "flat_noisy = flat_noise_free\<lparr> Nls := (Nls flat_noise_free)(''kk'' \<mapsto> unit_noise) \<rparr>"

section \<open>KernelBuilder and LimberIntegrator: the class \<^verbatim>\<open>LimberCosmology\<close>\<close>

subsection \<open>State\<close>

text \<open>
  A kernel is a dictionary with some of the keys \<^verbatim>\<open>dndz\<close>, \<^verbatim>\<open>zdelta\<close>, \<^verbatim>\<open>zmin\<close>,
  \<^verbatim>\<open>zmax\<close>, \<^verbatim>\<open>W\<close>, \<^verbatim>\<open>window_z\<close> and \<^verbatim>\<open>type\<close>: a record of optional fields, a missing
  key being \<open>None\<close>. The value of \<^verbatim>\<open>dndz\<close> is the string \<^verbatim>\<open>"delta"\<close> or a callable. The
  interpolator \<^verbatim>\<open>window_z\<close> is never evaluated by the module and is kept as the two sample
  arrays it was built from.
\<close>

datatype dndz = Delta | Dist "real \<Rightarrow> real"

record kernel =
  k_dndz :: "dndz option"
  k_zdelta :: "real option"
  k_zmin :: "real option"
  k_zmax :: "real option"
  k_W :: "real list option"
  k_window_z :: "(real list \<times> real list) option"
  k_type :: "string option"

definition empty_kernel :: kernel where
  "empty_kernel = \<lparr> k_dndz = None, k_zdelta = None, k_zmin = None, k_zmax = None, k_W = None,
                     k_window_z = None, k_type = None \<rparr>"

text \<open>
  The dictionary \<^verbatim>\<open>self.kernels\<close> keeps its keys in insertion order, which decides the
  order of the tag pairs: it is an association list with distinct keys. An assignment to
  a present key keeps its place.
\<close>

fun dict_set :: "'k \<Rightarrow> 'v \<Rightarrow> ('k \<times> 'v) list \<Rightarrow> ('k \<times> 'v) list" where
  "dict_set k v [] = [(k, v)]"
| "dict_set k v ((k', v') # kvs) =
     (if k = k' then (k, v) # kvs else (k', v') # dict_set k v kvs)"

text \<open>
  The state of a \<^verbatim>\<open>LimberCosmology\<close>: the grid, the background quantities read from the
  CAMB results (\<open>comoving_radial_distance\<close>, the densities, \<open>chistar\<close>), the kernels, and the
  attributes set by \<^verbatim>\<open>_initPower\<close> and \<^verbatim>\<open>generateCls\<close>, \<open>None\<close> while they are not set.
  \<open>camb_PK\<close> is the matter power \<open>P(z, k)\<close> that \<^verbatim>\<open>camb.get_matter_power_interpolator\<close>
  returns for this cosmology.
\<close>

record limber = grid +
  chistar :: real
  comoving_radial_distance :: "real \<Rightarrow> real"
  omch2 :: real
  ombh2 :: real
  omnuh2 :: real
  kmax :: real
  kernels :: "(string \<times> kernel) list"
  skipPower :: bool
  camb_PK :: "real \<Rightarrow> real \<Rightarrow> real"
  PK :: "(real \<Rightarrow> real \<Rightarrow> real) option"
  precalcFactor :: "real list option"
  Clmatrix :: "(string \<rightharpoonup> real list) option"
  ellrange :: "real list option"

text \<open>\<^verbatim>\<open>self._cSpeedKmPerSec = 299792.458\<close>.\<close>

definition cSpeedKmPerSec :: real where
  "cSpeedKmPerSec = 299792458 / 1000"

text \<open>
  \<^verbatim>\<open>interp1d(x, y)\<close> as the module builds \<^verbatim>\<open>window_z\<close>: the library rejects an empty sample
  set and arrays of different lengths.
\<close>

definition interp1d_samples :: "real list \<Rightarrow> real list \<Rightarrow> py_error + (real list \<times> real list)" where
  "interp1d_samples xs ys =
     (if xs = [] \<or> length xs \<noteq> length ys then Inl ValueError else Inr (xs, ys))"

subsection \<open>Construction\<close>

text \<open>
  The factor shared by the CMB window and the lensing windows, at one grid point:
  \<^verbatim>\<open>1.5*(self.omch2+self.ombh2+self.omnuh2)*100.*100.*(1.+self.zs)*self.chis/self.Hzs/self._cSpeedKmPerSec\<close>.
\<close>

definition lensing_prefactor :: "limber \<Rightarrow> real \<Rightarrow> real \<Rightarrow> real \<Rightarrow> real" where
  "lensing_prefactor self z chi H =
     15 / 10 * (omch2 self + ombh2 self + omnuh2 self) * 100 * 100 * (1 + z) * chi / H
       / cSpeedKmPerSec"

text \<open>An elementwise function of the three grid arrays \<open>zs\<close>, \<open>chis\<close>, \<open>Hzs\<close>.\<close>

definition on_grid :: "limber \<Rightarrow> (real \<Rightarrow> real \<Rightarrow> real \<Rightarrow> real) \<Rightarrow> real list" where
  "on_grid self f = map (\<lambda>(z, chi, H). f z chi H) (zip (zs self) (zip (chis self) (Hzs self)))"

text \<open>
  \<^verbatim>\<open>
  def _initWkappaCMB(self):
      chirange = self.chis
      iwcmb =  1.5*(self.omch2+self.ombh2+self.omnuh2)*100.*100.*(1.+self.zs)*self.chis*((self.chistar - self.chis)/self.chistar)/self.Hzs/self._cSpeedKmPerSec
      self.kernels['cmb']={}
      self.kernels['cmb']['W'] = iwcmb
      self.kernels['cmb']['window_z'] = interp1d(self.zs,(self.chistar - self.chis)/self.chistar)
  \<close>
\<close>

definition initWkappaCMB :: "limber \<Rightarrow> py_error + limber" where
  "initWkappaCMB self =
     (let iwcmb = on_grid self (\<lambda>z chi H.
                     15 / 10 * (omch2 self + ombh2 self + omnuh2 self) * 100 * 100 * (1 + z) * chi
                       * ((chistar self - chi) / chistar self) / H / cSpeedKmPerSec)
      in case interp1d_samples (zs self)
                (map (\<lambda>chi. (chistar self - chi) / chistar self) (chis self)) of
           Inl e \<Rightarrow> Inl e
         | Inr win \<Rightarrow>
             Inr (self\<lparr> kernels := dict_set ''cmb''
                          (empty_kernel\<lparr> k_W := Some iwcmb, k_window_z := Some win \<rparr>)
                          (kernels self) \<rparr>))"

text \<open>
  \<^verbatim>\<open>
  def _initPower(self,pkgrid_override=None):
      if pkgrid_override is None:
          self.PK = camb.get_matter_power_interpolator(self.pars, ...)
      else:
          ...
          self.PK = Ptemp(pkgrid_override)
      self.precalcFactor = self.Hzs**2. /self.chis/self.chis/self._cSpeedKmPerSec**2.
  \<close>
  \<^verbatim>\<open>Ptemp.P(zs, ks, grid=False)\<close> evaluates the override at \<open>(k, z)\<close>.
\<close>

definition initPower :: "limber \<Rightarrow> (real \<Rightarrow> real \<Rightarrow> real) option \<Rightarrow> limber" where
  "initPower self pkgrid_override =
     self\<lparr> PK := Some (case pkgrid_override of
                         None \<Rightarrow> camb_PK self
                       | Some pk \<Rightarrow> (\<lambda>z k. pk k z)),
           precalcFactor := Some (map2 (\<lambda>H chi. H\<^sup>2 / chi / chi / cSpeedKmPerSec\<^sup>2)
                                   (Hzs self) (chis self)) \<rparr>"

text \<open>
  \<^verbatim>\<open>LimberCosmology.__init__\<close>, after the CAMB background has been computed: the grid (see
  \<open>init_grid\<close>), the empty kernel dictionary, the CMB kernel, and the power spectrum unless
  it is skipped.
\<close>

definition LimberCosmology ::
  "(real \<Rightarrow> real) \<Rightarrow> (real \<Rightarrow> real) \<Rightarrow> (real \<Rightarrow> real) \<Rightarrow> real \<Rightarrow> real \<Rightarrow> real \<Rightarrow> real \<Rightarrow> nat \<Rightarrow> real
     \<Rightarrow> bool \<Rightarrow> (real \<Rightarrow> real \<Rightarrow> real) \<Rightarrow> (real \<Rightarrow> real \<Rightarrow> real) option \<Rightarrow> py_error + limber" where
  "LimberCosmology distance redshift_at hubble chistar0 omch20 ombh20 omnuh20 numz kmax0
       skipPower0 camb_PK0 pkgrid_override =
     (let g = init_grid redshift_at hubble chistar0 numz;
          self = \<lparr> chis = chis g, zs = zs g, dchis = dchis g, Hzs = Hzs g,
                   chistar = chistar0, comoving_radial_distance = distance,
                   omch2 = omch20, ombh2 = ombh20, omnuh2 = omnuh20, kmax = kmax0,
                   kernels = [], skipPower = skipPower0, camb_PK = camb_PK0, PK = None,
                   precalcFactor = None, Clmatrix = None, ellrange = None \<rparr>
      in case initWkappaCMB self of
           Inl e \<Rightarrow> Inl e
         | Inr self1 \<Rightarrow> Inr (if \<not> skipPower0 then initPower self1 pkgrid_override else self1))"

subsection \<open>Windows\<close>

text \<open>
  \<^verbatim>\<open>
  def _lensWindow(self,kernel,numzIntegral):
      if kernel['dndz']=="delta":
          zthis = kernel['zdelta']
          retvals = ((1.-self.chis/(self.results.comoving_radial_distance(zthis))))
          retvals[self.zs>zthis] = 0.
          return retvals
      else:
          retvals = []
          for chinow,znow in zip(self.chis,self.zs):
              if znow>kernel['zmax']:
                  retvals.append(0.) # this could be sped up
              else:
                  _galFunc = lambda z: (kernel['dndz'](z)*((1.-chinow/(self.results.comoving_radial_distance(z)))))
                  zStart = max(znow,kernel['zmin'])
                  zs=np.linspace(zStart,kernel['zmax'],numzIntegral)
                  dzs = (zs[2:]-zs[:-2])/2
                  zs = zs[1:-1]
                  _galInt = np.dot(dzs,np.array([_galFunc(zp) for zp in zs]))
                  retvals.append((_galInt))
          return np.array(retvals)
  \<close>
  A key the kernel lacks raises \<^verbatim>\<open>KeyError\<close>.
\<close>

definition galInt ::
  "limber \<Rightarrow> (real \<Rightarrow> real) \<Rightarrow> real \<Rightarrow> real \<Rightarrow> nat \<Rightarrow> real \<Rightarrow> real \<Rightarrow> real" where
  "galInt self p zmin0 zmax0 numzIntegral chinow znow =
     (let galFunc = (\<lambda>z. p z * (1 - chinow / comoving_radial_distance self z));
          zStart = max znow zmin0;
          zs0 = linspace zStart zmax0 numzIntegral;
          dzs = central_weights zs0;
          zs1 = slice_inner zs0
      in dot dzs (map galFunc zs1))"

definition lensWindow :: "limber \<Rightarrow> kernel \<Rightarrow> nat \<Rightarrow> py_error + real list" where
  "lensWindow self kern numzIntegral =
     (case k_dndz kern of
        None \<Rightarrow> Inl KeyError
      | Some Delta \<Rightarrow>
          (case k_zdelta kern of
             None \<Rightarrow> Inl KeyError
           | Some zthis \<Rightarrow>
               Inr (map2 (\<lambda>chi z. if z > zthis then 0
                                   else 1 - chi / comoving_radial_distance self zthis)
                      (chis self) (zs self)))
      | Some (Dist p) \<Rightarrow>
          (if chis self = [] \<or> zs self = [] then Inr []
           else
             case k_zmax kern of
               None \<Rightarrow> Inl KeyError
             | Some zmax0 \<Rightarrow>
                 if \<forall>znow \<in> set (map snd (zip (chis self) (zs self))). znow > zmax0
                 then Inr (map (\<lambda>_. 0) (zip (chis self) (zs self)))
                 else
                   (case k_zmin kern of
                      None \<Rightarrow> Inl KeyError
                    | Some zmin0 \<Rightarrow>
                        Inr (map (\<lambda>(chinow, znow).
                                    if znow > zmax0 then 0
                                    else galInt self p zmin0 zmax0 numzIntegral chinow znow)
                               (zip (chis self) (zs self))))))"

text \<open>
  \<^verbatim>\<open>
  def _generateWindow(self,tag,bias,magbias,numzIntegral):
      if bias==None:
          retvals = self._lensWindow(self.kernels[tag],numzIntegral)
          self.kernels[tag]['window_z'] = interp1d(self.zs,retvals.copy())
          self.kernels[tag]['W'] =  retvals *1.5*(self.omch2+self.ombh2+self.omnuh2)*100.*100.*(1.+self.zs)*self.chis/self.Hzs/self._cSpeedKmPerSec
          self.kernels[tag]['type'] = 'lensing'
      else:
          # FAILS FOR STEP !!!!
          assert self.kernels[tag]['dndz']!="delta"
          self.kernels[tag]['W'] = self.zs*0.+bias*self.kernels[tag]['dndz'](self.zs)
          self.kernels[tag]['W'][self.zs<self.kernels[tag]['zmin']] = 0.
          self.kernels[tag]['W'][self.zs>self.kernels[tag]['zmax']] = 0.
          self.kernels[tag]['type'] = 'counts'
          if magbias!=None:
              retvals = self._lensWindow(self.kernels[tag],numzIntegral)
              magcorrection = retvals*1.5*(self.omch2+self.ombh2+self.omnuh2)*100.*100.*(1.+self.zs)*self.chis*(5.*magbias-2.)/self.Hzs**2./self._cSpeedKmPerSec # this needs to be checked again
              self.kernels[tag]['W'] += magcorrection
  \<close>
  The two diagnostic prints are left out. \<open>scale_window\<close> multiplies a window, point by
  point, by a factor of the grid; \<open>generateWindow\<close> returns the finished kernel, which the
  builders store under the tag.
\<close>

definition scale_window :: "limber \<Rightarrow> real list \<Rightarrow> (real \<Rightarrow> real \<Rightarrow> real \<Rightarrow> real) \<Rightarrow> real list" where
  "scale_window self retvals f = map2 (*) retvals (on_grid self f)"

definition generateWindow ::
  "limber \<Rightarrow> kernel \<Rightarrow> real option \<Rightarrow> real option \<Rightarrow> nat \<Rightarrow> py_error + kernel" where
  "generateWindow self kern bias magbias numzIntegral =
     (case bias of
        None \<Rightarrow>
          (case lensWindow self kern numzIntegral of
             Inl e \<Rightarrow> Inl e
           | Inr retvals \<Rightarrow>
               (case interp1d_samples (zs self) retvals of
                  Inl e \<Rightarrow> Inl e
                | Inr win \<Rightarrow>
                    Inr (kern\<lparr> k_window_z := Some win,
                               k_W := Some (scale_window self retvals (lensing_prefactor self)),
                               k_type := Some ''lensing'' \<rparr>)))
      | Some b \<Rightarrow>
          (case k_dndz kern of
             None \<Rightarrow> Inl KeyError
           | Some Delta \<Rightarrow> Inl AssertionError
           | Some (Dist p) \<Rightarrow>
               (case k_zmin kern of
                  None \<Rightarrow> Inl KeyError
                | Some zmin0 \<Rightarrow>
                    (case k_zmax kern of
                       None \<Rightarrow> Inl KeyError
                     | Some zmax0 \<Rightarrow>
                         let W0 = map (\<lambda>z. if z > zmax0 then 0 else if z < zmin0 then 0
                                            else z * 0 + b * p z) (zs self);
                             counts = kern\<lparr> k_W := Some W0, k_type := Some ''counts'' \<rparr>
                         in (case magbias of
                               None \<Rightarrow> Inr counts
                             | Some s \<Rightarrow>
                                 (case lensWindow self counts numzIntegral of
                                    Inl e \<Rightarrow> Inl e
                                  | Inr retvals \<Rightarrow>
                                      let magcorrection =
                                            scale_window self retvals (\<lambda>z chi H.
                                              15 / 10 * (omch2 self + ombh2 self + omnuh2 self)
                                                * 100 * 100 * (1 + z) * chi * (5 * s - 2)
                                                / H\<^sup>2 / cSpeedKmPerSec)
                                      in Inr (counts\<lparr> k_W := Some (map2 (+) W0 magcorrection) \<rparr>)))))))"

text \<open>
  \<^verbatim>\<open>
  def addDeltaNz(self,tag,zsource,bias=None,magbias=None,ignore_exists=False):
      if not(ignore_exists): assert not(tag in list(self.kernels.keys())), "Tag already exists."
      assert tag!="cmb", "cmb is a tag reserved for cosmic microwave background. Use a different tag."
      self.kernels[tag] = {}
      self.kernels[tag]['dndz'] = "delta"
      self.kernels[tag]['zdelta'] = zsource
      self._generateWindow(tag,bias,magbias,numzIntegral=None)
  \<close>
  The delta branch of \<open>lensWindow\<close> does not read \<open>numzIntegral\<close>.
\<close>

definition addDeltaNz ::
  "limber \<Rightarrow> string \<Rightarrow> real \<Rightarrow> real option \<Rightarrow> real option \<Rightarrow> bool \<Rightarrow> py_error + limber" where
  "addDeltaNz self tag zsource bias magbias ignore_exists =
     (if \<not> ignore_exists \<and> tag \<in> set (map fst (kernels self)) then Inl AssertionError
      else if tag = ''cmb'' then Inl AssertionError
      else
        let kern = empty_kernel\<lparr> k_dndz := Some Delta, k_zdelta := Some zsource \<rparr>
        in case generateWindow self kern bias magbias 0 of
             Inl e \<Rightarrow> Inl e
           | Inr kern1 \<Rightarrow> Inr (self\<lparr> kernels := dict_set tag kern1 (kernels self) \<rparr>))"

subsection \<open>The Limber integral\<close>

text \<open>
  \<^verbatim>\<open>itertools.combinations_with_replacement(keys, 2)\<close> and \<^verbatim>\<open>zip(keys, keys)\<close>.
\<close>

fun combinations_with_replacement :: "'a list \<Rightarrow> ('a \<times> 'a) list" where
  "combinations_with_replacement [] = []"
| "combinations_with_replacement (x # xs) =
     map (Pair x) (x # xs) @ combinations_with_replacement xs"

definition listKeys :: "limber \<Rightarrow> bool \<Rightarrow> (string \<times> string) list" where
  "listKeys self autoOnly =
     (let keys = map fst (kernels self)
      in if autoOnly then zip keys keys else combinations_with_replacement keys)"

text \<open>The dictionary key \<^verbatim>\<open>key1+","+key2\<close> of a pair.\<close>

definition pair_key :: "string \<times> string \<Rightarrow> string" where
  "pair_key p = fst p @ '','' @ snd p"

text \<open>A boolean-mask selection \<^verbatim>\<open>a[m]\<close>.\<close>

definition mask :: "bool list \<Rightarrow> 'a list \<Rightarrow> 'a list" where
  "mask m xs = map snd (filter fst (zip m xs))"

text \<open>
  The body of the loop over the multipoles, up to the array \<open>common\<close>:
  \<^verbatim>\<open>
  k=(ell+0.5)/self.chis
  w[:]=1
  w[k<1e-4]=0
  w[k>=self.kmax]=0
  pkin = self.PK.P(self.zs, k, grid=False)
  common = ((w*pkin)*self.precalcFactor)[self.zs>=zmin]
  \<close>
\<close>

definition wavenumbers :: "limber \<Rightarrow> real \<Rightarrow> real list" where
  "wavenumbers self ell = map (\<lambda>chi. (ell + 5 / 10) / chi) (chis self)"

definition kwindow :: "limber \<Rightarrow> real list \<Rightarrow> real list" where
  "kwindow self k = map (\<lambda>ki. if ki \<ge> kmax self then 0 else if ki < 1 / 10000 then 0 else 1) k"

definition zfloor :: "limber \<Rightarrow> real \<Rightarrow> bool list" where
  "zfloor self zmin = map (\<lambda>z. z \<ge> zmin) (zs self)"

definition common :: "limber \<Rightarrow> (real \<Rightarrow> real \<Rightarrow> real) \<Rightarrow> real list \<Rightarrow> real \<Rightarrow> real \<Rightarrow> real list" where
  "common self P pf zmin ell =
     (let k = wavenumbers self ell;
          w = kwindow self k;
          pkin = map2 P (zs self) k
      in mask (zfloor self zmin) (map2 (*) (map2 (*) w pkin) pf))"

text \<open>
  \<^verbatim>\<open>
  estCl = np.dot(self.dchis[self.zs>=zmin], common*(self.kernels[key1]['W']*self.kernels[key2]['W'])[self.zs>=zmin])
  \<close>
\<close>

definition kernel_W :: "limber \<Rightarrow> string \<Rightarrow> py_error + real list" where
  "kernel_W self key =
     (case map_of (kernels self) key of
        None \<Rightarrow> Inl KeyError
      | Some kern \<Rightarrow> (case k_W kern of None \<Rightarrow> Inl KeyError | Some W \<Rightarrow> Inr W))"

definition estCl ::
  "limber \<Rightarrow> real list \<Rightarrow> real \<Rightarrow> string \<times> string \<Rightarrow> py_error + real" where
  "estCl self comm zmin p =
     (case kernel_W self (fst p) of
        Inl e \<Rightarrow> Inl e
      | Inr W1 \<Rightarrow>
          (case kernel_W self (snd p) of
             Inl e \<Rightarrow> Inl e
           | Inr W2 \<Rightarrow>
               Inr (dot (mask (zfloor self zmin) (dchis self))
                        (map2 (*) comm (mask (zfloor self zmin) (map2 (*) W1 W2))))))"

text \<open>
  \<^verbatim>\<open>retList[key1+","+key2].append(estCl)\<close>. The key is present: the first loop of
  \<^verbatim>\<open>generateCls\<close> has stored an empty list under the key of every pair.
\<close>

definition append_at :: "(string \<rightharpoonup> real list) \<Rightarrow> string \<Rightarrow> real \<Rightarrow> (string \<rightharpoonup> real list)" where
  "append_at retList key v =
     (case retList key of None \<Rightarrow> retList | Some xs \<Rightarrow> retList(key \<mapsto> xs @ [v]))"

text \<open>
  \<^verbatim>\<open>
  def generateCls(self,ellrange,autoOnly=False,zmin=0.):
      if self.skipPower: self._initPower()
      w = np.ones(self.chis.shape)
      retList = {}
      if autoOnly:
          listKeys = list(zip(list(self.kernels.keys()),list(self.kernels.keys())))
      else:
          listKeys = list(itertools.combinations_with_replacement(list(self.kernels.keys()),2))
      for key1,key2 in listKeys:
          retList[key1+","+key2] = []
      for ell in ellrange:
          ...
          for key1,key2 in listKeys:
              estCl = ...
              retList[key1+","+key2].append(estCl)
      for key1,key2 in listKeys:
          retList[key1+","+key2] = np.array(retList[key1+","+key2])
      self.Clmatrix = retList
      self.ellrange = ellrange
  \<close>
  \<open>ell_pass\<close> is one pass of the loop over the multipoles on the dictionary \<open>retList\<close>.
\<close>

definition ell_pass ::
  "limber \<Rightarrow> (real \<Rightarrow> real \<Rightarrow> real) \<Rightarrow> real list \<Rightarrow> real \<Rightarrow> (string \<times> string) list
     \<Rightarrow> (string \<rightharpoonup> real list) \<Rightarrow> real \<Rightarrow> py_error + (string \<rightharpoonup> real list)" where
  "ell_pass self P pf zmin keys retList ell =
     (let comm = common self P pf zmin ell
      in case collect (map (estCl self comm zmin) keys) of
           Inl e \<Rightarrow> Inl e
         | Inr vals \<Rightarrow>
             Inr (foldl (\<lambda>r (p, v). append_at r (pair_key p) v) retList (zip keys vals)))"

fun ell_loop ::
  "limber \<Rightarrow> (real \<Rightarrow> real \<Rightarrow> real) \<Rightarrow> real list \<Rightarrow> real \<Rightarrow> (string \<times> string) list
     \<Rightarrow> (string \<rightharpoonup> real list) \<Rightarrow> real list \<Rightarrow> py_error + (string \<rightharpoonup> real list)" where
  "ell_loop self P pf zmin keys retList [] = Inr retList"
| "ell_loop self P pf zmin keys retList (ell # ells) =
     (case ell_pass self P pf zmin keys retList ell of
        Inl e \<Rightarrow> Inl e
      | Inr retList1 \<Rightarrow> ell_loop self P pf zmin keys retList1 ells)"

definition generateCls :: "limber \<Rightarrow> real list \<Rightarrow> bool \<Rightarrow> real \<Rightarrow> py_error + limber" where
  "generateCls self0 ells autoOnly zmin =
     (let self = (if skipPower self0 then initPower self0 None else self0);
          keys = listKeys self autoOnly;
          retList = foldl (\<lambda>r p. r(pair_key p \<mapsto> [])) Map.empty keys
      in if ells = [] then Inr (self\<lparr> Clmatrix := Some retList, ellrange := Some ells \<rparr>)
         else
           case PK self of
             None \<Rightarrow> Inl AttributeError
           | Some P \<Rightarrow>
               (case precalcFactor self of
                  None \<Rightarrow> Inl AttributeError
                | Some pf \<Rightarrow>
                    (case ell_loop self P pf zmin keys retList ells of
                       Inl e \<Rightarrow> Inl e
                     | Inr retList1 \<Rightarrow>
                         Inr (self\<lparr> Clmatrix := Some retList1, ellrange := Some ells \<rparr>))))"

text \<open>
  \<^verbatim>\<open>
  def getCl(self,key1,key2):
      try:
          return self.Clmatrix[key1+","+key2]
      except KeyError:
          return self.Clmatrix[key2+","+key1]
      except:
          print("Key combination not found")
          raise
  \<close>
  A \<^verbatim>\<open>KeyError\<close> of the second lookup is raised inside the handler and propagates.
\<close>

definition getCl :: "limber \<Rightarrow> string \<Rightarrow> string \<Rightarrow> py_error + real list" where
  "getCl self key1 key2 =
     (case Clmatrix self of
        None \<Rightarrow> Inl AttributeError
      | Some M \<Rightarrow>
          (case M (pair_key (key1, key2)) of
             Some cl \<Rightarrow> Inr cl
           | None \<Rightarrow>
               (case M (pair_key (key2, key1)) of
                  Some cl \<Rightarrow> Inr cl
                | None \<Rightarrow> Inl KeyError)))"

subsection \<open>A small cosmology\<close>

text \<open>
  A \<^verbatim>\<open>LimberCosmology\<close> on four raw grid points up to \<open>chistar = 3\<close>, with the distance
  equal to the redshift, a constant Hubble rate and the constant matter power \<open>P(z, k) = 1\<close>.
\<close>

definition toy_cosmology :: "py_error + limber" where
  "toy_cosmology =
     LimberCosmology (\<lambda>z. z) (\<lambda>chi. chi) (\<lambda>z. 1) 3 (1 / 10) (1 / 50) 0 4 (4247 / 100) False
       (\<lambda>z k. 1) None"

subsection \<open>The Limber sum as the spec words it\<close>

text \<open>
  The spectrum value of claim C1 at a multipole \<open>ell\<close> for two windows \<open>W1\<close>, \<open>W2\<close>: with
  \<open>k\<^sub>i = (ell + 0.5) / chi\<^sub>i\<close>, the sum over the grid points with \<open>z\<^sub>i \<ge> zmin\<close> of the weight
  \<open>dchi\<^sub>i\<close> times \<open>P(z\<^sub>i, k\<^sub>i) * H(z\<^sub>i)\<^sup>2 / chi\<^sub>i\<^sup>2 / c\<^sup>2 * W1(z\<^sub>i) * W2(z\<^sub>i)\<close>, a grid point with
  \<open>k\<^sub>i < 1e-4\<close> or \<open>k\<^sub>i \<ge> kmax\<close> contributing nothing.
\<close>

definition limber_term ::
  "limber \<Rightarrow> (real \<Rightarrow> real \<Rightarrow> real) \<Rightarrow> real \<Rightarrow> real list \<Rightarrow> real list \<Rightarrow> nat \<Rightarrow> real" where
  "limber_term self P ell W1 W2 i =
     (let k = (ell + 1 / 2) / chis self ! i
      in if k < 1 / 10000 \<or> k \<ge> kmax self then 0
         else dchis self ! i
                * (P (zs self ! i) k * (Hzs self ! i)\<^sup>2 / (chis self ! i)\<^sup>2 / cSpeedKmPerSec\<^sup>2
                     * (W1 ! i * W2 ! i)))"

definition limber_sum ::
  "limber \<Rightarrow> (real \<Rightarrow> real \<Rightarrow> real) \<Rightarrow> real \<Rightarrow> real \<Rightarrow> real list \<Rightarrow> real list \<Rightarrow> real" where
  "limber_sum self P zmin ell W1 W2 =
     sum_list (map (\<lambda>i. if zs self ! i \<ge> zmin then limber_term self P ell W1 W2 i else 0)
                 [0..<length (chis self)])"

text \<open>The window array of a registered tag, and the spectrum value of a pair of tags.\<close>

definition window_of :: "limber \<Rightarrow> string \<Rightarrow> real list" where
  "window_of self key = (case kernel_W self key of Inl e \<Rightarrow> [] | Inr W \<Rightarrow> W)"

definition limber_cl ::
  "limber \<Rightarrow> (real \<Rightarrow> real \<Rightarrow> real) \<Rightarrow> real \<Rightarrow> real \<Rightarrow> string \<times> string \<Rightarrow> real" where
  "limber_cl self P zmin ell p =
     limber_sum self P zmin ell (window_of self (fst p)) (window_of self (snd p))"

text \<open>
  The power spectrum \<^verbatim>\<open>generateCls\<close> reads: the one \<^verbatim>\<open>_initPower()\<close> sets at its start when
  the power was skipped at construction, the one already set otherwise.
\<close>

definition power_spectrum :: "limber \<Rightarrow> (real \<Rightarrow> real \<Rightarrow> real) option" where
  "power_spectrum self = (if skipPower self then Some (camb_PK self) else PK self)"

text \<open>
  The states the constructors build: the grid arrays and every stored window have one
  length, the tags are distinct, every kernel has its window, and the precomputed Limber
  prefactor is the one \<^verbatim>\<open>_initPower\<close> computes.
\<close>

definition wf_limber :: "limber \<Rightarrow> bool" where
  "wf_limber self \<longleftrightarrow>
     length (zs self) = length (chis self)
   \<and> length (dchis self) = length (chis self)
   \<and> length (Hzs self) = length (chis self)
   \<and> distinct (map fst (kernels self))
   \<and> (\<forall>kv \<in> set (kernels self). \<exists>W. k_W (snd kv) = Some W \<and> length W = length (chis self))
   \<and> (\<not> skipPower self \<longrightarrow>
        precalcFactor self =
          Some (map2 (\<lambda>H chi. H\<^sup>2 / chi / chi / cSpeedKmPerSec\<^sup>2) (Hzs self) (chis self)))"

text \<open>A tag without the separator of the dictionary keys.\<close>

definition comma_free :: "string \<Rightarrow> bool" where
  "comma_free tag \<longleftrightarrow> CHR '','' \<notin> set tag"

section \<open>Properties of the RedshiftGrid\<close>

lemma length_linspace: "length (linspace a b n) = n"
  by (simp add: linspace_def)

lemma nth_linspace:
  "i < n \<Longrightarrow> 2 \<le> n \<Longrightarrow> linspace a b n ! i = a + real i * ((b - a) / real (n - 1))"
  by (simp add: linspace_def)

lemma length_central_weights: "length (central_weights xs) = length xs - 2"
  by (simp add: central_weights_def slice_from_def slice_upto_neg_def)

lemma nth_central_weights:
  "i < length xs - 2 \<Longrightarrow> central_weights xs ! i = (xs ! (i + 2) - xs ! i) / 2"
  by (simp add: central_weights_def slice_from_def slice_upto_neg_def add.commute)

lemma length_slice_inner: "length (slice_inner xs) = length xs - 2"
  by (simp add: slice_inner_def slice_from_def slice_upto_neg_def)

lemma nth_slice_inner:
  "i < length xs - 2 \<Longrightarrow> slice_inner xs ! i = xs ! (i + 1)"
  by (simp add: slice_inner_def slice_from_def slice_upto_neg_def)

lemma central_weights_linspace:
  assumes "2 \<le> n"
  shows "central_weights (linspace a b n) = replicate (n - 2) ((b - a) / real (n - 1))"
proof (rule nth_equalityI)
  show "length (central_weights (linspace a b n)) = length (replicate (n - 2) ((b - a) / real (n - 1)))"
    by (simp add: length_central_weights length_linspace)
next
  fix i assume "i < length (central_weights (linspace a b n))"
  then have i: "i < n - 2" by (simp add: length_central_weights length_linspace)
  define h where "h = (b - a) / real (n - 1)"
  have "central_weights (linspace a b n) ! i
      = (linspace a b n ! (i + 2) - linspace a b n ! i) / 2"
    using i by (simp add: nth_central_weights length_linspace)
  also have "\<dots> = ((a + real (i + 2) * h) - (a + real i * h)) / 2"
    using i assms by (simp add: nth_linspace h_def)
  also have "\<dots> = h"
    by (simp add: algebra_simps)
  finally show "central_weights (linspace a b n) ! i = replicate (n - 2) ((b - a) / real (n - 1)) ! i"
    using i by (simp add: h_def)
qed

lemma sum_list_central_weights_linspace:
  assumes "2 \<le> n"
  shows "sum_list (central_weights (linspace a b n)) = (b - a) - (b - a) / real (n - 1)"
proof -
  have "sum_list (central_weights (linspace a b n)) = real (n - 2) * ((b - a) / real (n - 1))"
    by (simp add: central_weights_linspace [OF assms] sum_list_replicate)
  also have "real (n - 2) = real (n - 1) - 1" using assms by (simp add: of_nat_diff)
  also have "(real (n - 1) - 1) * ((b - a) / real (n - 1)) = (b - a) - (b - a) / real (n - 1)"
    using assms by (simp add: field_simps)
  finally show ?thesis .
qed

text \<open>
  Claim C8: for every \<open>numz \<ge> 4\<close> and \<open>chi_target > 0\<close>, the grid built from \<open>numz\<close>
  uniformly spaced distances in \<open>[0, chi_target]\<close> has \<open>numz - 2\<close> usable samples (the inner
  points of the raw vector), its weights are \<open>dchi[i] = (chi[i+2] - chi[i]) / 2\<close> on the raw
  indexing, and the weights sum to \<open>chi_target\<close> up to the quadrature error of the rule:
  the sum falls short of \<open>chi_target\<close> by exactly one grid step \<open>chi_target / (numz - 1)\<close>,
  which is at most a third of \<open>chi_target\<close> and vanishes as \<open>numz\<close> grows.
\<close>

theorem grid_weights:
  fixes redshift_at hubble :: "real \<Rightarrow> real"
  assumes "4 \<le> numz" and "0 < chi_target"
  defines "g \<equiv> init_grid redshift_at hubble chi_target numz"
  shows "length (chis g) = numz - 2 \<and> length (zs g) = numz - 2 \<and> length (dchis g) = numz - 2
       \<and> (\<forall>i < numz - 2. dchis g ! i = (raw_chis chi_target numz ! (i + 2) - raw_chis chi_target numz ! i) / 2
                      \<and> chis g ! i = raw_chis chi_target numz ! (i + 1))
       \<and> sum_list (dchis g) = chi_target - chi_target / real (numz - 1)
       \<and> \<bar>chi_target - sum_list (dchis g)\<bar> \<le> chi_target / 3"
proof -
  have n2: "2 \<le> numz" using assms by simp
  have len: "length (raw_chis chi_target numz) = numz" by (simp add: raw_chis_def length_linspace)
  have s: "sum_list (dchis g) = chi_target - chi_target / real (numz - 1)"
    using sum_list_central_weights_linspace [OF n2, of 0 chi_target]
    by (simp add: g_def init_grid_def raw_chis_def Let_def)
  have "real (numz - 1) \<ge> 3" using assms by simp
  then have b: "chi_target / real (numz - 1) \<le> chi_target / 3"
    using assms(2) by (intro divide_left_mono) simp_all
  have p: "0 \<le> chi_target / real (numz - 1)" using assms by simp
  show ?thesis
    using s b p len
    by (simp add: g_def init_grid_def Let_def length_central_weights length_slice_inner
        nth_central_weights nth_slice_inner)
qed

theorem grid_weights_witness:
  "(4::nat) \<le> 4 \<and> (0::real) < 3 \<and> sum_list (dchis (init_grid (\<lambda>x. x) (\<lambda>x. x) 3 4)) = 2
   \<and> length (chis (init_grid (\<lambda>x. x) (\<lambda>x. x) 3 4)) = 2"
  using grid_weights [of 4 3 "\<lambda>x. x" "\<lambda>x. x"] by simp

section \<open>Properties of the NoiseModel\<close>

text \<open>
  Claim C9, as the spec states it, puts the atmospheric branch at \<open>lknee > 0\<close>. The code
  guards it with \<open>lknee > 1e-3\<close>: at \<open>lknee = 1/2000\<close> the atmospheric factor is \<open>0\<close>,
  not \<open>(lknee/ell)^(-alpha) = 1\<close> (here \<open>alpha = 0\<close>, a beam of width \<open>0\<close> and unit white
  level), so the noise is one white level and not two.
\<close>

theorem noise_func_lknee_positive_counterexample:
  "(0::real) < 1 \<and> (0::real) < 1 / 2000 \<and>
   noise_func 1 0 1 (1 / 2000) 0 False 1 \<noteq>
     (((1 / 2000) / 1) powr (- 0) + 1) * (1 * pi / (180 * 60))\<^sup>2
       * exp ((deg2rad (0 / 60))\<^sup>2 * 1\<^sup>2 / (8 * ln 2))"
  by (simp add: noise_func_def white_noise_with_atm_func_def atm_factor_def deg2rad_def)

text \<open>
  Claim C9, amended: for every multipole \<open>ell > 0\<close> the noise model returns
  \<open>(atmosphere_factor + 1) * white_level\<^sup>2\<close> times the beam-deconvolution factor
  \<open>exp (theta_fwhm\<^sup>2 * ell\<^sup>2 / (8 ln 2))\<close>, where the white level is the noise level in
  radians, \<open>theta_fwhm\<close> the beam width in radians, and the atmosphere factor is
  \<open>(lknee/ell)^(-alpha)\<close> whenever \<open>lknee > 1e-3\<close> and \<open>0\<close> otherwise (dimensional units).
\<close>

theorem noise_func_formula:
  assumes "0 < ell"
  shows "noise_func ell fwhm rms_noise lknee alpha False TCMB =
           ((if lknee > 1 / 1000 then (lknee / ell) powr (- alpha) else 0) + 1)
           * (rms_noise * pi / (180 * 60))\<^sup>2
           * exp ((fwhm / 60 * pi / 180)\<^sup>2 * ell\<^sup>2 / (8 * ln 2))"
  by (simp add: noise_func_def white_noise_with_atm_func_def atm_factor_def deg2rad_def)

theorem noise_func_formula_witness:
  "(0::real) < 2 \<and>
   noise_func 2 0 1 4 1 False 1 = ((4 / 2) powr (- 1) + 1) * (1 * pi / (180 * 60))\<^sup>2"
  using noise_func_formula [of 2 0 1 4 1 1] by simp

section \<open>Properties of the SpectrumInterpolator\<close>

lemma upper_TEB:
  "upper_char (CHR ''T'') = CHR ''T''" "upper_char (CHR ''E'') = CHR ''E''"
  "upper_char (CHR ''B'') = CHR ''B''"
  by (simp_all add: upper_char_def)









text \<open>
  Claim C6, as the spec states it, has \<open>gCl\<close> answer zero for the codes \<open>EB\<close> and \<open>TB\<close>.
  \<open>gCl\<close> with a two-character key reads the generic table only: on a fresh store it has
  no entry \<open>EB\<close> or \<open>BE\<close>, and the lookup raises \<^verbatim>\<open>KeyError\<close>.
\<close>

theorem gCl_EB_counterexample:
  "gCl TheorySpectra ''EB'' 5 = Inl KeyError \<and> gCl TheorySpectra ''TB'' 5 = Inl KeyError"
  by (simp add: gCl_def gCl_lookup_def TheorySpectra_def at_ell_def)

lemma upper_zero_code:
  assumes "code \<in> zero_codes"
  shows "upper code = code \<and> validateMapType code = Inr () \<and> code \<noteq> ''ET''"
proof -
  consider "code = ''EB''" | "code = ''TB''" | "code = ''BE''" | "code = ''BT''"
    using assms unfolding zero_codes_def by blast
  then show ?thesis
    by cases (simp_all add: upper_def upper_TEB validateMapType_def)
qed

lemma Cl_lookup_zero_code:
  assumes "code \<in> zero_codes" "(if lensed then lCl_dict self else uCl_dict self) code = None"
  shows "Cl_lookup self code lensed = Inr (\<lambda>ell. ell * 0)"
proof -
  have z: "code \<in> set [''EB'', ''TB''] \<or> rev code \<in> set [''EB'', ''TB'']"
    using assms(1) by (auto simp: zero_codes_def)
  show ?thesis
    using upper_zero_code [OF assms(1)] assms(2) z
    by (simp add: Cl_lookup_def Let_def del: set_simps)
qed

text \<open>
  Claim C6, amended: for every multipole \<open>ell\<close>, a query of a polarization table for one of
  the parity-odd codes \<open>EB\<close>, \<open>TB\<close>, \<open>BE\<close>, \<open>BT\<close> that has no entry there returns zero
  rather than raising, through \<open>uCl\<close> and \<open>lCl\<close> and through \<open>gCl\<close> with the
  three-character keys \<open>uEB\<close>, \<open>lEB\<close>, ...; and \<open>gCl\<close> with a key of any other length,
  registered in the generic table under neither ordering, fails with \<^verbatim>\<open>KeyError\<close>.
\<close>

theorem parity_odd_zero:
  assumes "code \<in> zero_codes"
  shows "(uCl_dict self code = None \<longrightarrow>
            uCl self code ell = Inr 0 \<and> gCl self (CHR ''u'' # code) ell = Inr 0
            \<and> gCl self (CHR ''U'' # code) ell = Inr 0)
       \<and> (lCl_dict self code = None \<longrightarrow>
            lCl self code ell = Inr 0 \<and> gCl self (CHR ''l'' # code) ell = Inr 0
            \<and> gCl self (CHR ''L'' # code) ell = Inr 0)
       \<and> (\<forall>keyName. length keyName \<noteq> 3 \<and> gCl_dict self keyName = None
              \<and> gCl_dict self (rev keyName) = None \<longrightarrow> gCl self keyName ell = Inl KeyError)"
proof -
  have len: "length code = 2" using assms by (auto simp: zero_codes_def)
  have pre: "gCl_lookup self (CHR ''u'' # code) = uCl_lookup self code"
    "gCl_lookup self (CHR ''U'' # code) = uCl_lookup self code"
    "gCl_lookup self (CHR ''l'' # code) = lCl_lookup self code"
    "gCl_lookup self (CHR ''L'' # code) = lCl_lookup self code"
    using len by (simp_all add: gCl_lookup_def lower_char_def)
  have u: "uCl_lookup self code = Inr (\<lambda>ell. ell * 0)" if "uCl_dict self code = None"
    using Cl_lookup_zero_code [OF assms, of False self] that by (simp add: uCl_lookup_def)
  have l: "lCl_lookup self code = Inr (\<lambda>ell. ell * 0)" if "lCl_dict self code = None"
    using Cl_lookup_zero_code [OF assms, of True self] that by (simp add: lCl_lookup_def)
  have U: "uCl self code ell = Inr 0 \<and> gCl self (CHR ''u'' # code) ell = Inr 0
            \<and> gCl self (CHR ''U'' # code) ell = Inr 0" if "uCl_dict self code = None"
    by (simp add: uCl_def gCl_def pre u [OF that] at_ell_def)
  have L: "lCl self code ell = Inr 0 \<and> gCl self (CHR ''l'' # code) ell = Inr 0
            \<and> gCl self (CHR ''L'' # code) ell = Inr 0" if "lCl_dict self code = None"
    by (simp add: lCl_def gCl_def pre l [OF that] at_ell_def)
  have G: "gCl self keyName ell = Inl KeyError"
    if "length keyName \<noteq> 3 \<and> gCl_dict self keyName = None \<and> gCl_dict self (rev keyName) = None"
    for keyName
    using that by (simp add: gCl_def gCl_lookup_def at_ell_def)
  show ?thesis
    using U L G by blast
qed

theorem parity_odd_zero_witness:
  "''EB'' \<in> zero_codes \<and> uCl TheorySpectra ''EB'' 7 = Inr 0
   \<and> gCl TheorySpectra ''lEB'' 7 = Inr 0 \<and> gCl TheorySpectra ''kg'' 7 = Inl KeyError"
proof -
  have m: "''EB'' \<in> zero_codes" by (simp add: zero_codes_def)
  show ?thesis
    using m parity_odd_zero [OF m, of TheorySpectra 7]
    by (simp add: TheorySpectra_def)
qed

section \<open>Properties of the ForecastEngine\<close>

lemma map2_map_map_same:
  "map2 g (map f xs) (map h xs) = map (\<lambda>x. g (f x) (h x)) xs"
  by (induction xs) simp_all

lemma bin_cls_noise_free:
  assumes "length spec = 2" "gCl_lookup (theory_obj self) spec = Inr f"
  shows "bin_cls self spec l r False =
           Inr (weighted_average (arange l (r + 1)) (map (\<lambda>ell. Fin (f ell)) (arange l (r + 1))))"
  using assms
  by (simp add: bin_cls_def bin_noise_def gCl_array_def at_ells_def Let_def map2_map_map_same)

lemma bin_cls_cross:
  assumes "length spec = 2" "spec ! 0 \<noteq> spec ! 1"
  shows "bin_cls self spec l r True = bin_cls self spec l r False"
  using assms by (simp add: bin_cls_def bin_noise_def Let_def split: sum.splits)

lemma bin_cls_auto:
  assumes "length spec = 2" "spec ! 0 = spec ! 1" "gCl_lookup (theory_obj self) spec = Inr f"
    "Nls self spec = Some n"
  shows "bin_cls self spec l r True =
           Inr (weighted_average (arange l (r + 1))
                  (map (\<lambda>ell. fadd (Fin (f ell)) (n ell)) (arange l (r + 1))))"
  using assms
  by (simp add: bin_cls_def bin_noise_def gCl_array_def at_ells_def Let_def map2_map_map_same)

text \<open>
  Claim C10: in the bin average \<open>bin_cls\<close> of a spectrum tag with two equal letters the
  registered noise curve is added to the signal, sample by sample, before the
  multipole-weighted average; for a tag with two different letters the added noise is the
  zero array even when noise is requested, so the bin average with noise is the bin average
  without: the weighted average of the signal alone.
\<close>

theorem noise_only_on_auto_spectra:
  assumes "length spec = 2" and "gCl_lookup (theory_obj self) spec = Inr f"
  shows "(spec ! 0 = spec ! 1 \<and> Nls self spec = Some n \<longrightarrow>
            bin_cls self spec l r True =
              Inr (weighted_average (arange l (r + 1))
                     (map (\<lambda>ell. fadd (Fin (f ell)) (n ell)) (arange l (r + 1)))))
       \<and> (spec ! 0 \<noteq> spec ! 1 \<longrightarrow>
            bin_noise self spec (arange l (r + 1)) True = Inr (map (\<lambda>ell. Fin 0) (arange l (r + 1)))
          \<and> bin_cls self spec l r True = bin_cls self spec l r False
          \<and> bin_cls self spec l r True =
              Inr (weighted_average (arange l (r + 1)) (map (\<lambda>ell. Fin (f ell)) (arange l (r + 1)))))"
  using bin_cls_auto [OF assms(1) _ assms(2)] bin_cls_cross [OF assms(1)]
    bin_cls_noise_free [OF assms]
  by (simp add: bin_noise_def)










lemma snRatio_loop_terms:
  "snRatio_loop self fsky mw (a, b, c) = Inr (a', b', c') \<Longrightarrow>
   \<exists>vs. collect (map (\<lambda>(m, w). read_bin self m) mw) = Inr vs
      \<and> a' = foldl fadd a (map (snd \<circ> snd) (map2 (\<lambda>v (m, w). snRatio_terms v fsky m w) vs mw))
      \<and> b' = foldl fadd b (map fst (map2 (\<lambda>v (m, w). snRatio_terms v fsky m w) vs mw))
      \<and> c' = foldl fadd c (map (fst \<circ> snd) (map2 (\<lambda>v (m, w). snRatio_terms v fsky m w) vs mw))"
proof (induction mw arbitrary: a b c)
  case Nil
  then show ?case by simp
next
  case (Cons p mw)
  obtain m w where p: "p = (m, w)" by (cases p)
  from Cons.prems p obtain v where v: "read_bin self m = Inr v"
    by (auto split: sum.splits)
  obtain tn td ch where t: "snRatio_terms v fsky m w = (tn, td, ch)"
    by (cases "snRatio_terms v fsky m w") auto
  from Cons.prems p v t
  have "snRatio_loop self fsky mw (fadd a ch, fadd b tn, fadd c td) = Inr (a', b', c')"
    by simp
  from Cons.IH [OF this] obtain vs where
    vs: "collect (map (\<lambda>(m, w). read_bin self m) mw) = Inr vs"
    and r: "a' = foldl fadd (fadd a ch) (map (snd \<circ> snd) (map2 (\<lambda>v (m, w). snRatio_terms v fsky m w) vs mw))"
       "b' = foldl fadd (fadd b tn) (map fst (map2 (\<lambda>v (m, w). snRatio_terms v fsky m w) vs mw))"
       "c' = foldl fadd (fadd c td) (map (fst \<circ> snd) (map2 (\<lambda>v (m, w). snRatio_terms v fsky m w) vs mw))"
    by blast
  have "collect (map (\<lambda>(m, w). read_bin self m) (p # mw)) = Inr (v # vs)"
    using p v vs by simp
  moreover have "a' = foldl fadd a (map (snd \<circ> snd) (map2 (\<lambda>v (m, w). snRatio_terms v fsky m w) (v # vs) (p # mw)))"
    using r(1) p t by simp
  moreover have "b' = foldl fadd b (map fst (map2 (\<lambda>v (m, w). snRatio_terms v fsky m w) (v # vs) (p # mw)))"
    using r(2) p t by simp
  moreover have "c' = foldl fadd c (map (fst \<circ> snd) (map2 (\<lambda>v (m, w). snRatio_terms v fsky m w) (v # vs) (p # mw)))"
    using r(3) p t by simp
  ultimately show ?case by blast
qed

lemma snRatio_general:
  assumes "snRatio self ellBinEdges fsky = Inr res"
  shows "\<exists>vs. collect (map (\<lambda>(m, w). read_bin self m) (mids_widths ellBinEdges)) = Inr vs
     \<and> res = joint_estimate (map2 (\<lambda>v (m, w). snRatio_terms v fsky m w) vs (mids_widths ellBinEdges))"
proof -
  from assms obtain a b c where
    l: "snRatio_loop self fsky (mids_widths ellBinEdges) (Fin 0, Fin 0, Fin 0) = Inr (a, b, c)"
    and res: "res = (fdiv (fmul (fdiv (Fin 1) (fsqrt a)) (Fin 100)) (fdiv b c),
                     fdiv (fdiv b c) (fdiv (Fin 1) (fsqrt a)), fdiv b c)"
    by (auto simp: snRatio_def Let_def split: sum.splits if_splits)
  from snRatio_loop_terms [OF l] res show ?thesis
    by (auto simp: joint_estimate_def fsum_def Let_def)
qed

lemma terms_flat:
  assumes "sg \<noteq> 0" "D \<noteq> 0" "bracket kk nkk ngg nss kg gg ks ss sg \<noteq> 0"
    and "D = fsky * (2 * m + 1) * w"
  shows "snRatio_terms (flat_values kk nkk ngg nss kg gg ks ss sg) fsky m w =
           (Fin (kg * sg * D / bracket kk nkk ngg nss kg gg ks ss sg),
            Fin (sg\<^sup>2 * D / bracket kk nkk ngg nss kg gg ks ss sg),
            Fin (sg\<^sup>2 * D / bracket kk nkk ngg nss kg gg ks ss sg))"
proof -
  define S where "S = bracket kk nkk ngg nss kg gg ks ss sg"
  have sz: "sigmaZsq (flat_values kk nkk ngg nss kg gg ks ss sg) fsky m w = Fin (S * (1 / D))"
    using assms(1,2) unfolding assms(4)
    by (simp add: sigmaZsq_def flat_values_def fsquare_def fsub_def S_def bracket_def power2_eq_square)
  have nz: "S * (1 / D) \<noteq> 0" using assms(2,3) by (simp add: S_def)
  show ?thesis
    unfolding snRatio_terms_def Let_def sz S_def [symmetric]
    using nz by (simp add: flat_values_def fsquare_def power2_eq_square)
qed

lemma snRatio_loop_flat:
  assumes "sg \<noteq> 0" "bracket kk nkk ngg nss kg gg ks ss sg \<noteq> 0"
    and "\<forall>p \<in> set mw. read_bin self (fst p) = Inr (flat_values kk nkk ngg nss kg gg ks ss sg)
           \<and> bin_weight fsky p \<noteq> 0"
  shows "snRatio_loop self fsky mw (Fin a, Fin b, Fin c) =
           Inr (Fin (a + sg\<^sup>2 / bracket kk nkk ngg nss kg gg ks ss sg * sum_list (map (bin_weight fsky) mw)),
                Fin (b + kg * sg / bracket kk nkk ngg nss kg gg ks ss sg * sum_list (map (bin_weight fsky) mw)),
                Fin (c + sg\<^sup>2 / bracket kk nkk ngg nss kg gg ks ss sg * sum_list (map (bin_weight fsky) mw)))"
  using assms(3)
proof (induction mw arbitrary: a b c)
  case Nil
  then show ?case by simp
next
  case (Cons p mw)
  obtain m w where p: "p = (m, w)" by (cases p)
  have rb: "read_bin self m = Inr (flat_values kk nkk ngg nss kg gg ks ss sg)"
    and D: "bin_weight fsky (m, w) \<noteq> 0"
    using Cons.prems p by auto
  have rest: "\<forall>p \<in> set mw. read_bin self (fst p) = Inr (flat_values kk nkk ngg nss kg gg ks ss sg)
           \<and> bin_weight fsky p \<noteq> 0"
    using Cons.prems by simp
  have t: "snRatio_terms (flat_values kk nkk ngg nss kg gg ks ss sg) fsky m w =
           (Fin (kg * sg * bin_weight fsky (m, w) / bracket kk nkk ngg nss kg gg ks ss sg),
            Fin (sg\<^sup>2 * bin_weight fsky (m, w) / bracket kk nkk ngg nss kg gg ks ss sg),
            Fin (sg\<^sup>2 * bin_weight fsky (m, w) / bracket kk nkk ngg nss kg gg ks ss sg))"
    using terms_flat [OF assms(1) D assms(2)] by (simp add: bin_weight_def)
  define S where "S = bracket kk nkk ngg nss kg gg ks ss sg"
  define D where "D = bin_weight fsky (m, w)"
  define R where "R = sum_list (map (bin_weight fsky) mw)"
  have step: "snRatio_loop self fsky (p # mw) (Fin a, Fin b, Fin c) =
      snRatio_loop self fsky mw (Fin (a + sg\<^sup>2 * D / S), Fin (b + kg * sg * D / S), Fin (c + sg\<^sup>2 * D / S))"
    using p rb t by (simp add: S_def D_def)
  also have "\<dots> = Inr (Fin (a + sg\<^sup>2 * D / S + sg\<^sup>2 / S * R),
                Fin (b + kg * sg * D / S + kg * sg / S * R),
                Fin (c + sg\<^sup>2 * D / S + sg\<^sup>2 / S * R))"
    using Cons.IH [OF rest] by (simp add: S_def R_def)
  also have "a + sg\<^sup>2 * D / S + sg\<^sup>2 / S * R = a + sg\<^sup>2 / S * (D + R)"
    by (simp add: algebra_simps add_divide_distrib)
  also have "b + kg * sg * D / S + kg * sg / S * R = b + kg * sg / S * (D + R)"
    by (simp add: algebra_simps add_divide_distrib)
  also have "c + sg\<^sup>2 * D / S + sg\<^sup>2 / S * R = c + sg\<^sup>2 / S * (D + R)"
    by (simp add: algebra_simps add_divide_distrib)
  finally show ?case by (simp add: S_def D_def R_def p)
qed

lemma in_mids_widths:
  assumes "p \<in> set (mids_widths es)"
  shows "\<exists>i. Suc i < length es \<and> fst p = (es ! Suc i + es ! i) / 2 \<and> snd p = es ! Suc i - es ! i"
proof -
  from assms obtain i where i: "i < length (mids_widths es)" and pi: "p = mids_widths es ! i"
    by (auto simp: in_set_conv_nth)
  have "Suc i < length es"
    using i by (simp add: mids_widths_def slice_from_def slice_upto_neg_def)
  moreover from this have "mids_widths es ! i = ((es ! Suc i + es ! i) / 2, es ! Suc i - es ! i)"
    by (simp add: mids_widths_def slice_from_def slice_upto_neg_def)
  ultimately show ?thesis using pi by auto
qed

lemma bin_weight_pos:
  assumes "0 < fsky" "sorted_wrt (<) es" "\<forall>e \<in> set es. 0 \<le> e" "p \<in> set (mids_widths es)"
  shows "0 < bin_weight fsky p"
proof -
  from in_mids_widths [OF assms(4)] obtain i where i: "Suc i < length es"
    and m: "fst p = (es ! Suc i + es ! i) / 2" and w: "snd p = es ! Suc i - es ! i"
    by blast
  have lt: "es ! i < es ! Suc i" using assms(2) i by (simp add: sorted_wrt_nth_less)
  have "0 \<le> es ! i" using assms(3) i by simp
  then have "0 < 2 * fst p + 1" "0 < snd p" using lt m w by simp_all
  then show ?thesis using assms(1) by (simp add: bin_weight_def)
qed

lemma mids_widths_nonempty: "2 \<le> length es \<Longrightarrow> mids_widths es \<noteq> []"
  by (cases es; cases "tl es") (auto simp: mids_widths_def slice_from_def slice_upto_neg_def)

lemma sum_list_pos_nonempty:
  fixes xs :: "real list"
  assumes "xs \<noteq> []" "\<forall>x \<in> set xs. 0 < x"
  shows "0 < sum_list xs"
  using assms by (induction xs) (auto intro: add_pos_nonneg sum_list_nonneg less_imp_le)

lemma snRatio_flat:
  assumes "sg \<noteq> 0" "bracket kk nkk ngg nss kg gg ks ss sg \<noteq> 0"
    and "0 < fsky" "sorted_wrt (<) es" "\<forall>e \<in> set es. 0 \<le> e" "2 \<le> length es"
    and "\<forall>p \<in> set (mids_widths es).
           read_bin self (fst p) = Inr (flat_values kk nkk ngg nss kg gg ks ss sg)"
  shows "\<exists>percentR snR. snRatio self es fsky = Inr (percentR, snR, Fin (kg / sg))"
proof -
  define S where "S = bracket kk nkk ngg nss kg gg ks ss sg"
  define T where "T = sum_list (map (bin_weight fsky) (mids_widths es))"
  have ne: "mids_widths es \<noteq> []" using assms(6) by (rule mids_widths_nonempty)
  have pos: "\<forall>p \<in> set (mids_widths es). 0 < bin_weight fsky p"
    using bin_weight_pos [OF assms(3,4,5)] by blast
  have T: "0 < T" unfolding T_def
    using ne pos by (intro sum_list_pos_nonempty) auto
  have hyp: "\<forall>p \<in> set (mids_widths es).
      read_bin self (fst p) = Inr (flat_values kk nkk ngg nss kg gg ks ss sg) \<and> bin_weight fsky p \<noteq> 0"
    using assms(7) pos by fastforce
  have loop: "snRatio_loop self fsky (mids_widths es) (Fin 0, Fin 0, Fin 0) =
      Inr (Fin (sg\<^sup>2 / S * T), Fin (kg * sg / S * T), Fin (sg\<^sup>2 / S * T))"
    using snRatio_loop_flat [OF assms(1,2) hyp, of 0 0 0] by (simp add: S_def T_def)
  have nz: "sg\<^sup>2 / S * T \<noteq> 0" using assms(1,2) T by (simp add: S_def)
  have "kg * sg / S * T / (sg\<^sup>2 / S * T) = kg / sg"
    using assms(1,2) T by (simp add: S_def power2_eq_square)
  then have ml: "fdiv (Fin (kg * sg / S * T)) (Fin (sg\<^sup>2 / S * T)) = Fin (kg / sg)"
    using nz by simp
  show ?thesis
    unfolding snRatio_def loop using ne ml by (simp add: Let_def)
qed

lemma flat_curve_mid: "flat_curve (3 / 2) = 1" "flat_curve (5 / 2) = 1"
  by (simp_all add: flat_curve_def interp1d_def)

lemma zero_noise_mid: "zero_noise (3 / 2) = Fin 0" "zero_noise (5 / 2) = Fin 0"
  by (simp_all add: zero_noise_def interp1d_inf_def)

lemma read_flat:
  "read_bin flat_noise_free (3 / 2) = Inr (flat_values 1 0 0 0 1 1 1 1 1)"
  "read_bin flat_noise_free (5 / 2) = Inr (flat_values 1 0 0 0 1 1 1 1 1)"
  by (simp_all add: read_bin_def signal_at_def noise_at_def gCl_def gCl_lookup_def at_ell_def
      flat_noise_free_def LensForecast_def TheorySpectra_def flat_values_def
      flat_curve_mid zero_noise_mid)

lemma flat_sigmaZsq:
  "sigmaZsq (flat_values 1 0 0 0 1 1 1 1 1) 1 (3 / 2) 1 = Fin 0"
  "sigmaZsq (flat_values 1 0 0 0 1 1 1 1 1) 1 (5 / 2) 1 = Fin 0"
  by (simp_all add: sigmaZsq_def flat_values_def fsquare_def fsub_def Let_def)

lemma flat_terms:
  "snRatio_terms (flat_values 1 0 0 0 1 1 1 1 1) 1 (3 / 2) 1 = (PInf, PInf, PInf)"
  "snRatio_terms (flat_values 1 0 0 0 1 1 1 1 1) 1 (5 / 2) 1 = (PInf, PInf, PInf)"
  unfolding snRatio_terms_def Let_def flat_sigmaZsq
  by (simp_all add: flat_values_def fsquare_def inf_of_sign_def)

lemma flat_mids: "mids_widths [1, 2, 3] = [(3 / 2, 1), (5 / 2, 1)]"
  by (simp add: mids_widths_def slice_from_def slice_upto_neg_def)

lemma flat_loop:
  "snRatio_loop flat_noise_free 1 [(3 / 2, 1), (5 / 2, 1)] (Fin 0, Fin 0, Fin 0) = Inr (PInf, PInf, PInf)"
  unfolding snRatio_loop.simps read_flat by (simp add: flat_terms)

text \<open>
  Claim C4, as the spec states it, has the amplitude equal the constant \<open>r0\<close> when the six
  spectra are identical constants and there is no noise. On the engine \<open>flat_noise_free\<close>
  every bin reads the value \<open>1\<close> for the six spectra and \<open>0\<close> for the three noise curves;
  then \<open>sigmaZsq\<close> is \<open>0\<close> in every bin, the increments are infinite, and the three returned
  values are not-a-number: the amplitude is not \<open>r0 = 1\<close>.
\<close>

theorem snRatio_identical_flat_counterexample:
  "read_bin flat_noise_free (3 / 2) = Inr (flat_values 1 0 0 0 1 1 1 1 1)
   \<and> read_bin flat_noise_free (5 / 2) = Inr (flat_values 1 0 0 0 1 1 1 1 1)
   \<and> mids_widths [1, 2, 3] = [(3 / 2, 1), (5 / 2, 1)]
   \<and> sigmaZsq (flat_values 1 0 0 0 1 1 1 1 1) 1 (3 / 2) 1 = Fin 0
   \<and> sigmaZsq (flat_values 1 0 0 0 1 1 1 1 1) 1 (5 / 2) 1 = Fin 0
   \<and> snRatio flat_noise_free [1, 2, 3] 1 = Inr (NaN, NaN, NaN)"
proof -
  have "snRatio flat_noise_free [1, 2, 3] 1 = Inr (NaN, NaN, NaN)"
    unfolding snRatio_def flat_mids flat_loop by simp
  then show ?thesis
    using read_flat flat_mids flat_sigmaZsq by simp
qed

lemma flat_noise_free_loaded:
  "(case forecast_loadGenericCls (LensForecast None) ''kk'' [1, 2, 3] [1, 1, 1] (Some ([1, 2, 3], [0, 0, 0])) of
      Inl e \<Rightarrow> Inl e | Inr s1 \<Rightarrow>
    case forecast_loadGenericCls s1 ''gg'' [1, 2, 3] [1, 1, 1] (Some ([1, 2, 3], [0, 0, 0])) of
      Inl e \<Rightarrow> Inl e | Inr s2 \<Rightarrow>
    case forecast_loadGenericCls s2 ''ss'' [1, 2, 3] [1, 1, 1] (Some ([1, 2, 3], [0, 0, 0])) of
      Inl e \<Rightarrow> Inl e | Inr s3 \<Rightarrow>
    case forecast_loadGenericCls s3 ''kg'' [1, 2, 3] [1, 1, 1] None of
      Inl e \<Rightarrow> Inl e | Inr s4 \<Rightarrow>
    case forecast_loadGenericCls s4 ''ks'' [1, 2, 3] [1, 1, 1] None of
      Inl e \<Rightarrow> Inl e | Inr s5 \<Rightarrow>
    forecast_loadGenericCls s5 ''sg'' [1, 2, 3] [1, 1, 1] None) = Inr flat_noise_free"
  by (simp add: forecast_loadGenericCls_def loadGenericCls_def spectrum_function_def
      below_lpad_def flat_noise_free_def LensForecast_def TheorySpectra_def flat_curve_def
      zero_noise_def)

lemma estimator_terms_eq:
  "estimator_terms fsky vs mw = map2 (\<lambda>v (m, w). snRatio_terms v fsky m w) vs mw"
  by (simp add: estimator_terms_def snRatio_terms_def Let_def)

text \<open>
  Claim C4, amended: the estimator accumulates \<open>signum\<close>, the sum over the bins of
  \<open>Clkg*Clsg/\<sigma>\<^sub>Z\<^sup>2\<close>, and \<open>sigden\<close>, the sum of \<open>Clsg\<^sup>2/\<sigma>\<^sub>Z\<^sup>2\<close>; with the amplitude
  \<open>signum/sigden\<close> and the uncertainty \<open>sigmaR = 1/sqrt\<close> of the summed chi-square terms
  \<open>Clsg\<^sup>2/\<sigma>\<^sub>Z\<^sup>2\<close>, it returns the percentage \<open>100 * sigmaR / amplitude\<close>, the signal-to-noise
  \<open>amplitude / sigmaR\<close> and the amplitude. When, on increasing non-negative bin edges and
  with \<open>f_sky > 0\<close>, the six spectra and the three noise curves read the same finite values
  in every bin, with \<open>Clsg \<noteq> 0\<close> and a non-zero bracket of \<open>\<sigma>\<^sub>Z\<^sup>2\<close>, then \<open>r0 = Clkg/Clsg\<close> is
  the same in every bin and the returned amplitude is that constant.
\<close>

theorem snRatio_estimator:
  "(snRatio self ellBinEdges fsky = Inr res \<longrightarrow>
      (\<exists>vs. collect (map (\<lambda>(ellMid, ellWidth). read_bin self ellMid) (mids_widths ellBinEdges)) = Inr vs
          \<and> res = joint_estimate (estimator_terms fsky vs (mids_widths ellBinEdges))))
   \<and> (sg \<noteq> 0 \<and> bracket kk nkk ngg nss kg gg ks ss sg \<noteq> 0 \<and> 0 < fsky
        \<and> sorted_wrt (<) ellBinEdges \<and> (\<forall>e \<in> set ellBinEdges. 0 \<le> e) \<and> 2 \<le> length ellBinEdges
        \<and> (\<forall>p \<in> set (mids_widths ellBinEdges).
              read_bin self (fst p) = Inr (flat_values kk nkk ngg nss kg gg ks ss sg)) \<longrightarrow>
      fdiv (Clkg (flat_values kk nkk ngg nss kg gg ks ss sg))
           (Clsg (flat_values kk nkk ngg nss kg gg ks ss sg)) = Fin (kg / sg)
      \<and> (\<exists>percentR snR. snRatio self ellBinEdges fsky = Inr (percentR, snR, Fin (kg / sg))))"
proof (intro conjI impI)
  assume "snRatio self ellBinEdges fsky = Inr res"
  from snRatio_general [OF this]
  show "\<exists>vs. collect (map (\<lambda>(ellMid, ellWidth). read_bin self ellMid) (mids_widths ellBinEdges)) = Inr vs
          \<and> res = joint_estimate (estimator_terms fsky vs (mids_widths ellBinEdges))"
    by (simp add: estimator_terms_eq)
next
  assume h: "sg \<noteq> 0 \<and> bracket kk nkk ngg nss kg gg ks ss sg \<noteq> 0 \<and> 0 < fsky
        \<and> sorted_wrt (<) ellBinEdges \<and> (\<forall>e \<in> set ellBinEdges. 0 \<le> e) \<and> 2 \<le> length ellBinEdges
        \<and> (\<forall>p \<in> set (mids_widths ellBinEdges).
              read_bin self (fst p) = Inr (flat_values kk nkk ngg nss kg gg ks ss sg))"
  then show "fdiv (Clkg (flat_values kk nkk ngg nss kg gg ks ss sg))
           (Clsg (flat_values kk nkk ngg nss kg gg ks ss sg)) = Fin (kg / sg)"
    by (simp add: flat_values_def)
next
  assume h: "sg \<noteq> 0 \<and> bracket kk nkk ngg nss kg gg ks ss sg \<noteq> 0 \<and> 0 < fsky
        \<and> sorted_wrt (<) ellBinEdges \<and> (\<forall>e \<in> set ellBinEdges. 0 \<le> e) \<and> 2 \<le> length ellBinEdges
        \<and> (\<forall>p \<in> set (mids_widths ellBinEdges).
              read_bin self (fst p) = Inr (flat_values kk nkk ngg nss kg gg ks ss sg))"
  then show "\<exists>percentR snR. snRatio self ellBinEdges fsky = Inr (percentR, snR, Fin (kg / sg))"
    using snRatio_flat [of sg kk nkk ngg nss kg gg ks ss fsky ellBinEdges self] by blast
qed

lemma unit_noise_mid: "unit_noise (3 / 2) = Fin 1" "unit_noise (5 / 2) = Fin 1"
  by (simp_all add: unit_noise_def interp1d_inf_def)

lemma read_noisy:
  "read_bin flat_noisy (3 / 2) = Inr (flat_values 1 1 0 0 1 1 1 1 1)"
  "read_bin flat_noisy (5 / 2) = Inr (flat_values 1 1 0 0 1 1 1 1 1)"
  by (simp_all add: read_bin_def signal_at_def noise_at_def gCl_def gCl_lookup_def at_ell_def
      flat_noisy_def flat_noise_free_def LensForecast_def TheorySpectra_def flat_values_def
      flat_curve_mid zero_noise_mid unit_noise_mid)

theorem snRatio_estimator_witness:
  "\<exists>percentR snR vs.
      snRatio flat_noisy [1, 2, 3] 1 = Inr (percentR, snR, Fin 1)
    \<and> collect (map (\<lambda>(ellMid, ellWidth). read_bin flat_noisy ellMid) (mids_widths [1, 2, 3])) = Inr vs
    \<and> (percentR, snR, Fin 1) = joint_estimate (estimator_terms 1 vs (mids_widths [1, 2, 3]))"
proof -
  have b: "bracket 1 1 0 0 1 1 1 1 1 = 1" by (simp add: bracket_def)
  have r: "\<forall>p \<in> set (mids_widths [1, 2, 3]).
              read_bin flat_noisy (fst p) = Inr (flat_values 1 1 0 0 1 1 1 1 1)"
    by (simp add: flat_mids read_noisy)
  note t = snRatio_estimator [of flat_noisy "[1, 2, 3]" 1 _ 1 1 1 0 0 1 1 1 1]
  from t [THEN conjunct2] b r
  obtain percentR snR where s: "snRatio flat_noisy [1, 2, 3] 1 = Inr (percentR, snR, Fin 1)"
    by auto
  from t [of "(percentR, snR, Fin 1)", THEN conjunct1] s
  show ?thesis by blast
qed

lemma arange_1_3: "arange 1 3 = [1, 2]"
  by (simp add: arange_def upt_rec)

lemma flat_curve_nodes: "flat_curve 1 = 1" "flat_curve 2 = 1"
  by (simp_all add: flat_curve_def interp1d_def)

lemma unit_noise_nodes: "unit_noise 1 = Fin 1" "unit_noise 2 = Fin 1"
  by (simp_all add: unit_noise_def interp1d_inf_def)

lemma flat_noisy_lookup:
  "gCl_lookup (theory_obj flat_noisy) ''kk'' = Inr flat_curve"
  "gCl_lookup (theory_obj flat_noisy) ''kg'' = Inr flat_curve"
  "Nls flat_noisy ''kk'' = Some unit_noise"
  by (simp_all add: gCl_lookup_def flat_noisy_def flat_noise_free_def LensForecast_def
      TheorySpectra_def)



theorem noise_only_on_auto_spectra_witness:
  "bin_cls flat_noisy ''kk'' 1 2 True = Inr (Fin 2)
   \<and> bin_cls flat_noisy ''kg'' 1 2 True = Inr (Fin 1)
   \<and> bin_cls flat_noisy ''kg'' 1 2 False = Inr (Fin 1)
   \<and> bin_noise flat_noisy ''kg'' [1, 2] True = Inr [Fin 0, Fin 0]"
proof -
  have l: "length ''kk'' = 2" "length ''kg'' = 2" by simp_all
  from noise_only_on_auto_spectra [OF l(1) flat_noisy_lookup(1), of unit_noise 1 2]
  have a: "bin_cls flat_noisy ''kk'' 1 2 True = Inr (Fin 2)"
    by (simp add: flat_noisy_lookup arange_1_3 weighted_average_def fsum_def flat_curve_nodes
        unit_noise_nodes)
  from noise_only_on_auto_spectra [OF l(2) flat_noisy_lookup(2), of unit_noise 1 2]
  have c: "bin_noise flat_noisy ''kg'' [1, 2] True = Inr [Fin 0, Fin 0]
      \<and> bin_cls flat_noisy ''kg'' 1 2 True = bin_cls flat_noisy ''kg'' 1 2 False
      \<and> bin_cls flat_noisy ''kg'' 1 2 True = Inr (Fin 1)"
    by (auto simp add: arange_1_3 weighted_average_def fsum_def flat_curve_nodes)
  then have b: "bin_cls flat_noisy ''kg'' 1 2 True = Inr (Fin 1)
      \<and> bin_cls flat_noisy ''kg'' 1 2 False = Inr (Fin 1)
      \<and> bin_noise flat_noisy ''kg'' [1, 2] True = Inr [Fin 0, Fin 0]"
    by metis
  from a b show ?thesis by simp
qed



section \<open>Properties of the KernelBuilder\<close>

lemma map_of_dict_set_same: "map_of (dict_set k v kvs) k = Some v"
  by (induction kvs) auto

lemma map_of_dict_set_other: "k' \<noteq> k \<Longrightarrow> map_of (dict_set k v kvs) k' = map_of kvs k'"
  by (induction kvs) auto

lemma keys_dict_set:
  "map fst (dict_set k v kvs) = (if k \<in> set (map fst kvs) then map fst kvs else map fst kvs @ [k])"
  by (induction kvs) (fastforce simp: image_iff)+

lemma lensWindow_delta:
  "lensWindow self (empty_kernel\<lparr> k_dndz := Some Delta, k_zdelta := Some zsource \<rparr>) n =
     Inr (map2 (\<lambda>chi z. if z > zsource then 0 else 1 - chi / comoving_radial_distance self zsource)
            (chis self) (zs self))"
  by (simp add: lensWindow_def empty_kernel_def)

text \<open>
  Claim C2: the window that \<open>addDeltaNz\<close> builds for a delta-function source at \<open>zsource\<close>
  (a lensing kernel, no bias), stored as the samples of \<^verbatim>\<open>window_z\<close> over the grid
  redshifts, is \<open>1 - chi / chi(zsource)\<close> at every grid point with \<open>z \<le> zsource\<close> and \<open>0\<close> at
  every grid point with \<open>z > zsource\<close>; the kernel's \<open>W\<close> is this window times the lensing
  prefactor.
\<close>

theorem delta_window:
  assumes add: "addDeltaNz self tag zsource None magbias ignore_exists = Inr self'"
    and len: "length (chis self) = length (zs self)"
  shows "\<exists>kern win.
      map_of (kernels self') tag = Some kern
    \<and> k_window_z kern = Some (zs self, win)
    \<and> k_W kern = Some (scale_window self win (lensing_prefactor self))
    \<and> length win = length (zs self)
    \<and> (\<forall>i < length (zs self).
          (zs self ! i \<le> zsource \<longrightarrow>
             win ! i = 1 - chis self ! i / comoving_radial_distance self zsource)
        \<and> (zs self ! i > zsource \<longrightarrow> win ! i = 0))"
proof -
  define win where "win = map2 (\<lambda>chi z. if z > zsource then 0
        else 1 - chi / comoving_radial_distance self zsource) (chis self) (zs self)"
  define kern0 where "kern0 = empty_kernel\<lparr> k_dndz := Some Delta, k_zdelta := Some zsource \<rparr>"
  have lw: "lensWindow self kern0 0 = Inr win"
    unfolding kern0_def win_def by (rule lensWindow_delta)
  have lwin: "length win = length (zs self)" using len by (simp add: win_def)
  from add obtain kern1 where g: "generateWindow self kern0 None magbias 0 = Inr kern1"
    and s: "self' = self\<lparr> kernels := dict_set tag kern1 (kernels self) \<rparr>"
    by (auto simp: addDeltaNz_def Let_def kern0_def split: if_splits sum.splits)
  from g lw have k1: "k_window_z kern1 = Some (zs self, win)"
    "k_W kern1 = Some (scale_window self win (lensing_prefactor self))"
    by (auto simp: generateWindow_def interp1d_samples_def split: sum.splits if_splits)
  have m: "map_of (kernels self') tag = Some kern1"
    using s by (simp add: map_of_dict_set_same)
  have pt: "(zs self ! i \<le> zsource \<longrightarrow>
             win ! i = 1 - chis self ! i / comoving_radial_distance self zsource)
        \<and> (zs self ! i > zsource \<longrightarrow> win ! i = 0)" if "i < length (zs self)" for i
    using that len by (simp add: win_def)
  show ?thesis using m k1 lwin pt by blast
qed

lemma toy_grid: "init_grid (\<lambda>chi. chi) (\<lambda>z. 1) 3 4 =
    \<lparr> chis = [1, 2], zs = [1, 2], dchis = [1, 1], Hzs = [1, 1] \<rparr>"
  by (simp add: init_grid_def raw_chis_def linspace_def central_weights_def slice_inner_def
      slice_from_def slice_upto_neg_def upt_rec Let_def)

lemma toy_cosmology_built:
  "\<exists>self. toy_cosmology = Inr self \<and> chis self = [1, 2] \<and> zs self = [1, 2]
     \<and> dchis self = [1, 1] \<and> Hzs self = [1, 1]
     \<and> comoving_radial_distance self = (\<lambda>z. z) \<and> map fst (kernels self) = [''cmb'']
     \<and> PK self = Some (\<lambda>z k. 1) \<and> \<not> skipPower self \<and> kmax self = 4247 / 100"
  by (simp add: toy_cosmology_def LimberCosmology_def toy_grid initWkappaCMB_def
      interp1d_samples_def initPower_def Let_def)

lemma generateWindow_delta:
  assumes "zs self \<noteq> []" "length (chis self) = length (zs self)"
  shows "\<exists>kern1. generateWindow self (empty_kernel\<lparr> k_dndz := Some Delta, k_zdelta := Some zsource \<rparr>)
            None magbias n = Inr kern1"
proof -
  let ?win = "map2 (\<lambda>chi z. if z > zsource then 0 else 1 - chi / comoving_radial_distance self zsource)
            (chis self) (zs self)"
  have "interp1d_samples (zs self) ?win = Inr (zs self, ?win)"
    using assms by (simp add: interp1d_samples_def)
  then show ?thesis
    unfolding generateWindow_def lensWindow_delta by simp
qed

lemma addDeltaNz_succeeds:
  assumes "tag \<notin> set (map fst (kernels self))" "tag \<noteq> ''cmb''" "zs self \<noteq> []"
    "length (chis self) = length (zs self)"
  shows "\<exists>self'. addDeltaNz self tag zsource None magbias ignore_exists = Inr self'"
proof -
  from generateWindow_delta [OF assms(3,4)] obtain kern1 where
    "generateWindow self (empty_kernel\<lparr> k_dndz := Some Delta, k_zdelta := Some zsource \<rparr>)
            None magbias 0 = Inr kern1" by blast
  then show ?thesis
    unfolding addDeltaNz_def Let_def using assms(1,2) by simp
qed

lemma two_list: "length xs = 2 \<Longrightarrow> xs ! 0 = a \<Longrightarrow> xs ! 1 = b \<Longrightarrow> xs = [a, b]"
  by (cases xs; cases "tl xs") auto

theorem delta_window_witness:
  "\<exists>self self' kern.
      toy_cosmology = Inr self
    \<and> addDeltaNz self ''s'' (3 / 2) None None False = Inr self'
    \<and> length (chis self) = length (zs self)
    \<and> map_of (kernels self') ''s'' = Some kern
    \<and> k_window_z kern = Some ([1, 2], [1 / 3, 0])"
proof -
  from toy_cosmology_built obtain self where T:
    "toy_cosmology = Inr self \<and> chis self = [1, 2] \<and> zs self = [1, 2]
     \<and> dchis self = [1, 1] \<and> Hzs self = [1, 1]
     \<and> comoving_radial_distance self = (\<lambda>z. z) \<and> map fst (kernels self) = [''cmb'']
     \<and> PK self = Some (\<lambda>z k. 1) \<and> \<not> skipPower self \<and> kmax self = 4247 / 100"
    by (rule exE)
  have t: "toy_cosmology = Inr self" and g1: "chis self = [1, 2]" and g2: "zs self = [1, 2]"
    and g3: "comoving_radial_distance self = (\<lambda>z. z)"
    and k: "map fst (kernels self) = [''cmb'']"
    using T by simp_all
  have len: "length (chis self) = length (zs self)" by (simp add: g1 g2)
  have notin: "''s'' \<notin> set (map fst (kernels self))" by (simp add: k)
  have ne: "zs self \<noteq> []" by (simp add: g2)
  from addDeltaNz_succeeds [OF notin _ ne len, of "3 / 2" None False]
  obtain self' where a: "addDeltaNz self ''s'' (3 / 2) None None False = Inr self'"
    by auto
  from delta_window [OF a len] obtain kern win where
    m: "map_of (kernels self') ''s'' = Some kern"
    and w1: "k_window_z kern = Some (zs self, win)" and w2: "length win = length (zs self)"
    and p: "\<forall>i < length (zs self).
          (zs self ! i \<le> 3 / 2 \<longrightarrow> win ! i = 1 - chis self ! i / comoving_radial_distance self (3 / 2))
        \<and> (zs self ! i > 3 / 2 \<longrightarrow> win ! i = 0)"
    by blast
  have p0: "win ! 0 = 1 / 3" using p [rule_format, of 0] by (simp add: g1 g2 g3)
  have p1: "win ! 1 = 0" using p [rule_format, of 1] by (simp add: g1 g2 g3)
  have "length win = 2" using w2 by (simp add: g2)
  from two_list [OF this p0 p1] have "win = [1 / 3, 0]" .
  then have "k_window_z kern = Some ([1, 2], [1 / 3, 0])" using w1 by (simp add: g2)
  with t a len m show ?thesis by blast
qed

end
